theory Spec2Isabelle
  imports Complex_Main
begin

section \<open>Values, exceptions and the output file\<close>

text \<open>
  Python's floats are idealised as exact rationals: \<open>+\<close>, \<open>/\<close> and \<open>=\<close> are the exact
  operations, so rounding, infinities and NaN are outside the model. Python's unbounded
  integers are \<open>int\<close>. A Python \<open>str\<close> is its list of code points; \<open>len\<close> counts them.
\<close>

type_synonym num = rat
type_synonym pystr = "nat list"

text \<open>The exceptions the export can raise.\<close>

datatype error =
    StructError          \<comment> \<open>\<open>struct.pack\<close>: value outside the range of the format\<close>
  | UnicodeEncodeError   \<comment> \<open>\<open>str.encode('ascii')\<close> on a code point above 127\<close>
  | IndexError
  | AttributeError       \<comment> \<open>attribute access on \<open>0\<close> or \<open>None\<close>\<close>
  | ValueError           \<comment> \<open>\<open>Matrix.inverted()\<close> on a matrix without inverse\<close>
  | ZeroDivisionError
  | AxisError            \<comment> \<open>\<open>axis_conversion\<close> refusing its arguments\<close>
  | OSError              \<comment> \<open>\<open>open\<close> on a path that cannot be written\<close>

text \<open>
  What \<open>file.write\<close> receives, one item per call. In mode \<open>"wb"\<close> it is the result of
  \<open>struct.pack\<close> (kept as format and value) or the encoded name; in mode \<open>"w"\<close> it is
  \<open>str(value) + ' '\<close> or the text itself.
\<close>

datatype item =
    Pack_I int | Pack_H int | Pack_B int | Pack_f num | Pack_bool bool
  | Encoded "nat list"
  | Str_int int | Str_float num | Str_bool bool | Text pystr

type_synonym outfile = "item list"

text \<open>
  A statement that writes returns the file as it left it and the exception it raised, if
  any. \<open>andThen\<close> is the sequencing of two statements: the second one runs only when the
  first one did not raise.
\<close>

type_synonym 's outcome = "error option \<times> 's"

definition andThen :: "'s outcome \<Rightarrow> ('s \<Rightarrow> 's outcome) \<Rightarrow> 's outcome" where
  "andThen r k = (case fst r of None \<Rightarrow> k (snd r) | Some e \<Rightarrow> r)"

definition fileWriteMode :: string where
  "fileWriteMode = ''wb''"

definition writeUint32 :: "outfile \<Rightarrow> int \<Rightarrow> outfile outcome" where
  "writeUint32 f v =
     (if fileWriteMode = ''wb''
      then (if 0 \<le> v \<and> v < 2 ^ 32 then (None, f @ [Pack_I v]) else (Some StructError, f))
      else (None, f @ [Str_int v]))"

definition writeUint16 :: "outfile \<Rightarrow> int \<Rightarrow> outfile outcome" where
  "writeUint16 f v =
     (if fileWriteMode = ''wb''
      then (if 0 \<le> v \<and> v < 2 ^ 16 then (None, f @ [Pack_H v]) else (Some StructError, f))
      else (None, f @ [Str_int v]))"

definition writeUint8 :: "outfile \<Rightarrow> int \<Rightarrow> outfile outcome" where
  "writeUint8 f v =
     (if fileWriteMode = ''wb''
      then (if 0 \<le> v \<and> v < 2 ^ 8 then (None, f @ [Pack_B v]) else (Some StructError, f))
      else (None, f @ [Str_int v]))"

definition writeFloat :: "outfile \<Rightarrow> num \<Rightarrow> outfile outcome" where
  "writeFloat f v =
     (if fileWriteMode = ''wb'' then (None, f @ [Pack_f v]) else (None, f @ [Str_float v]))"

definition writeBool :: "outfile \<Rightarrow> bool \<Rightarrow> outfile outcome" where
  "writeBool f v =
     (if fileWriteMode = ''wb'' then (None, f @ [Pack_bool v]) else (None, f @ [Str_bool v]))"

definition writeString :: "outfile \<Rightarrow> pystr \<Rightarrow> outfile outcome" where
  "writeString f text =
     (if fileWriteMode = ''wb''
      then (if \<forall>c \<in> set text. c < 128 then (None, f @ [Encoded text])
            else (Some UnicodeEncodeError, f))
      else (None, f @ [Text text]))"

section \<open>normalizeJointWeights\<close>

text \<open>
  The loop \<open>for i, weight in enumerate(weights): result[i] = weight/totalWeights\<close>. The
  division is evaluated before the assignment, so a zero divisor would raise first; the
  assignment raises IndexError when \<open>i\<close> is past the end of \<open>result\<close>.
\<close>

fun normalize_loop :: "num \<Rightarrow> nat \<Rightarrow> num list \<Rightarrow> num list \<Rightarrow> error + num list" where
  "normalize_loop totalWeights i [] result = Inr result"
| "normalize_loop totalWeights i (weight # weights) result =
     (if totalWeights = 0 then Inl ZeroDivisionError
      else if i < length result
      then normalize_loop totalWeights (Suc i) weights (result[i := weight / totalWeights])
      else Inl IndexError)"

definition normalizeJointWeights :: "num list \<Rightarrow> error + num list" where
  "normalizeJointWeights weights =
     (let totalWeights = sum_list weights;
          result = [0, 0, 0, 0]
      in if totalWeights \<noteq> 0 then normalize_loop totalWeights 0 weights result
         else Inr result)"

section \<open>Vertex: equality and hash\<close>

record Vector =
  vx :: num
  vy :: num
  vz :: num

record Vertex =
  position :: Vector
  uv :: "num \<times> num"
  normal :: Vector
  jointIndices :: "int list"
  jointWeights :: "num list"

text \<open>\<open>__eq__\<close> compares the two \<open>__dict__\<close>s: every attribute, by value.\<close>

definition Vertex_eq :: "Vertex \<Rightarrow> Vertex \<Rightarrow> bool" where
  "Vertex_eq self other \<longleftrightarrow>
     position self = position other \<and> uv self = uv other \<and> normal self = normal other
     \<and> jointIndices self = jointIndices other \<and> jointWeights self = jointWeights other"

text \<open>
  Python's built-in \<open>hash\<close> on a float is the hash of the rational \<open>m/n\<close> it equals, as
  the language reference gives it: with \<open>P = 2^61 - 1\<close>, the value \<open>|m| * n^(P-2) mod P\<close>
  (or \<open>sys.hash_info.inf\<close> when \<open>P\<close> divides \<open>n\<close>), negated for a negative number, and
  \<open>-2\<close> in place of \<open>-1\<close>.
\<close>

definition hash_modulus :: int where
  "hash_modulus = 2 ^ 61 - 1"

definition py_hash :: "num \<Rightarrow> int" where
  "py_hash r =
     (let m = fst (quotient_of r); n = snd (quotient_of r);
          h = (if n mod hash_modulus = 0 then 314159
               else (\<bar>m\<bar> mod hash_modulus) * (n ^ nat (hash_modulus - 2) mod hash_modulus)
                      mod hash_modulus);
          h' = (if m < 0 then - h else h)
      in if h' = - 1 then - 2 else h')"

definition Vertex_hash :: "Vertex \<Rightarrow> int" where
  "Vertex_hash self = py_hash (vx (position self))"

section \<open>The vertex dictionary\<close>

text \<open>
  \<open>vertices\<close> is a Python dict from Vertex to int; it keeps its keys in insertion order.
  A lookup finds the entry whose key has the same hash and compares equal.
\<close>

type_synonym vdict = "(Vertex \<times> int) list"

definition same_key :: "Vertex \<Rightarrow> Vertex \<Rightarrow> bool" where
  "same_key k' k \<longleftrightarrow> Vertex_hash k' = Vertex_hash k \<and> Vertex_eq k' k"

definition dict_get :: "vdict \<Rightarrow> Vertex \<Rightarrow> int option" where
  "dict_get d k = map_option snd (find (\<lambda>e. same_key (fst e) k) d)"

fun dict_set :: "vdict \<Rightarrow> Vertex \<Rightarrow> int \<Rightarrow> vdict" where
  "dict_set [] k v = [(k, v)]"
| "dict_set (e # d) k v = (if same_key (fst e) k then (fst e, v) # d else e # dict_set d k v)"

text \<open>
  Lines 124 to 126 of getDataFromMeshObjects:
  \<open>if vertices.get(vertex) == None: vertices[vertex] = len(vertices)\<close>, then the index
  \<open>vertices[vertex]\<close> that is appended to the face. A subscript on a missing key would
  raise; \<open>IndexError\<close> stands for Python's KeyError here.
\<close>

definition intern :: "vdict \<Rightarrow> Vertex \<Rightarrow> error + (vdict \<times> int)" where
  "intern vertices vertex =
     (let vertices' = (if dict_get vertices vertex = None
                       then dict_set vertices vertex (int (length vertices))
                       else vertices)
      in case dict_get vertices' vertex of
           None \<Rightarrow> Inl IndexError
         | Some i \<Rightarrow> Inr (vertices', i))"

text \<open>The same lines run over a stream of vertices, in order, collecting the indices.\<close>

fun intern_stream :: "vdict \<Rightarrow> int list \<Rightarrow> Vertex list \<Rightarrow> error + (vdict \<times> int list)" where
  "intern_stream d out [] = Inr (d, out)"
| "intern_stream d out (v # vs) =
     (case intern d v of
        Inl e \<Rightarrow> Inl e
      | Inr r \<Rightarrow> intern_stream (fst r) (out @ [snd r]) vs)"





text \<open>Sample vertices: \<open>vtx x u\<close> has position \<open>(x, 0, 0)\<close> and UV \<open>(u, 0)\<close>.\<close>

definition vtx :: "num \<Rightarrow> num \<Rightarrow> Vertex" where
  "vtx x u = \<lparr>position = \<lparr>vx = x, vy = 0, vz = 0\<rparr>, uv = (u, 0),
              normal = \<lparr>vx = 0, vy = 0, vz = 1\<rparr>,
              jointIndices = [0, 0, 0, 0], jointWeights = [0, 0, 0, 0]\<rparr>"

text \<open>
  \<open>pos ks v\<close> is the position of the first \<open>v\<close> in \<open>ks\<close>; \<open>seen_before vs v\<close> is the
  number of distinct elements of the stream \<open>vs\<close> that come before the first \<open>v\<close>.
\<close>

definition pos :: "'a list \<Rightarrow> 'a \<Rightarrow> nat" where
  "pos ks v = length (takeWhile (\<lambda>u. u \<noteq> v) ks)"

definition seen_before :: "'a list \<Rightarrow> 'a \<Rightarrow> nat" where
  "seen_before vs v = card (set (takeWhile (\<lambda>u. u \<noteq> v) vs))"

definition dict_inv :: "vdict \<Rightarrow> Vertex list \<Rightarrow> bool" where
  "dict_inv d p \<longleftrightarrow>
     distinct (map fst d) \<and> map snd d = map int [0..<length d] \<and> set (map fst d) = set p
     \<and> (\<forall>v \<in> set p. pos (map fst d) v = seen_before p v)"

section \<open>What the export takes from Blender\<close>

text \<open>
  The scene, the evaluated meshes, the armature and the matrix library belong to Blender.
  The model takes their data as records and their operations as the fields of a record
  \<open>bpy\<close> of functions over a type \<open>'m\<close> of 4x4 matrices, so every statement below holds
  for whatever these operations compute.
\<close>

datatype pose_position = REST | POSE

datatype axis = Axis_X | Axis_negX | Axis_Y | Axis_negY | Axis_Z | Axis_negZ

record Quaternion =
  qw :: num
  qx :: num
  qy :: num
  qz :: num

record VertexGroupElement =
  group :: nat
  weight :: num

record MeshVertex =
  undeformed_co :: Vector
  groups :: "VertexGroupElement list"

record MeshLoop =
  vertex_index :: nat
  loop_normal :: Vector

text \<open>
  A mesh: its vertices, its loops (corners), the data of the active UV layer (one UV per
  loop, \<open>None\<close> when the mesh has no UV layer) and its polygons, each one the list of
  its loop indices. In Blender every loop belongs to one polygon, so the assignment
  \<open>uv.y = 1-uv.y\<close> reaches each UV once; the model reads the flipped value.
\<close>

record Mesh =
  vertices :: "MeshVertex list"
  loops :: "MeshLoop list"
  uv_layers_active :: "(num \<times> num) list option"
  polygons :: "nat list list"

record 'm MeshObject =
  vertex_groups :: "pystr list"
  matrix_world :: 'm
  to_mesh :: Mesh

text \<open>
  A bone is known by its name, unique in its armature; \<open>parent\<close> is the name of the
  parent bone, \<open>None\<close> for a root. The pose bones are the same bones in the same order.
\<close>

record 'm Bone =
  bone_name :: pystr
  parent :: "pystr option"
  matrix_local :: 'm

record 'm Armature =
  bones :: "'m Bone list"
  has_animation_data :: bool

record Action =
  action_name :: pystr
  frame_range :: "num \<times> num"

datatype 'm Object = MESH "'m MeshObject" | ARMATURE "'m Armature" | OTHER

record 'm Scene =
  selected_objects :: "'m Object list"
  actions :: "Action list"
  forwardAxis :: axis
  upAxis :: axis
  meshPath_writable :: bool
  skeletonPath_writable :: bool

record 'm bpy =
  matmul :: "'m \<Rightarrow> 'm \<Rightarrow> 'm"
  inverted :: "'m \<Rightarrow> 'm option"
  rows :: "'m \<Rightarrow> num list list"
  to_translation :: "'m \<Rightarrow> Vector"
  to_quaternion :: "'m \<Rightarrow> Quaternion"
  to_scale :: "'m \<Rightarrow> Vector"
  axis_conversion :: "axis \<Rightarrow> axis \<Rightarrow> axis \<Rightarrow> axis \<Rightarrow> error + 'm"
  mesh_transform :: "'m \<Rightarrow> Mesh \<Rightarrow> Mesh"
  triangulate :: "Mesh \<Rightarrow> Mesh"
  calc_normals_split :: "Mesh \<Rightarrow> Mesh"
  bone_matrix :: "Action option \<Rightarrow> int \<Rightarrow> pose_position \<Rightarrow> pystr \<Rightarrow> 'm"

text \<open>
  The session state the export reads and changes, and the output file: \<open>created\<close> says
  whether \<open>open\<close> has created (and emptied) it, \<open>written\<close> is what has been written to it.
\<close>

record world =
  frame_current :: int
  action :: "Action option"
  armature_pose_position :: pose_position
  created :: bool
  written :: outfile

definition on_file :: "(outfile \<Rightarrow> outfile outcome) \<Rightarrow> world \<Rightarrow> world outcome" where
  "on_file k w = (let r = k (written w) in (fst r, w\<lparr>written := snd r\<rparr>))"

text \<open>\<open>for x in xs: w(file, x)\<close>: the first exception ends the loop.\<close>

fun write_all :: "('s \<Rightarrow> 'a \<Rightarrow> 's outcome) \<Rightarrow> 's \<Rightarrow> 'a list \<Rightarrow> 's outcome" where
  "write_all w f [] = (None, f)"
| "write_all w f (x # xs) = andThen (w f x) (\<lambda>f'. write_all w f' xs)"

text \<open>\<open>for i in range(..): w(file, xs[i])\<close>; a subscript past the end raises IndexError.\<close>

fun write_indexed :: "(outfile \<Rightarrow> 'a \<Rightarrow> outfile outcome) \<Rightarrow> outfile \<Rightarrow> 'a list \<Rightarrow> nat list
    \<Rightarrow> outfile outcome" where
  "write_indexed w f xs [] = (None, f)"
| "write_indexed w f xs (i # rest) =
     (if i < length xs then andThen (w f (xs ! i)) (\<lambda>f'. write_indexed w f' xs rest)
      else (Some IndexError, f))"

section \<open>The mesh file\<close>

definition writeVertex :: "bool \<Rightarrow> outfile \<Rightarrow> Vertex \<Rightarrow> outfile outcome" where
  "writeVertex writeJointBindings f vertex =
     andThen (write_all writeFloat f
        [vx (position vertex), vy (position vertex), vz (position vertex),
         fst (uv vertex), snd (uv vertex),
         vx (normal vertex), vy (normal vertex), vz (normal vertex)])
       (\<lambda>f. if writeJointBindings
            then andThen (write_indexed writeUint8 f (jointIndices vertex) [0, 1, 2, 3])
                   (\<lambda>f. write_indexed writeFloat f (jointWeights vertex) [0, 1, 2, 3])
            else (None, f))"

definition writeVertices :: "outfile \<Rightarrow> Vertex list \<Rightarrow> bool \<Rightarrow> outfile outcome" where
  "writeVertices f vs writeJointBindings = write_all (writeVertex writeJointBindings) f vs"

definition writeFaces :: "outfile \<Rightarrow> int list list \<Rightarrow> outfile outcome" where
  "writeFaces f faces = write_all (write_all writeUint16) f faces"

text \<open>\<open>armature.data.bones.find(name)\<close>: the position of the bone of that name, or -1.\<close>

definition bones_find :: "'m Bone list \<Rightarrow> pystr \<Rightarrow> int" where
  "bones_find bs nm =
     (if nm \<in> set (map bone_name bs) then int (pos (map bone_name bs) nm) else - 1)"

text \<open>Lines 116 to 121: the first four vertex groups of a mesh vertex.\<close>

fun bind_groups :: "'m MeshObject \<Rightarrow> 'm Armature \<Rightarrow> nat \<Rightarrow> VertexGroupElement list
    \<Rightarrow> int list \<Rightarrow> num list \<Rightarrow> error + (int list \<times> num list)" where
  "bind_groups obj arm jointBindingIndex [] ji jw = Inr (ji, jw)"
| "bind_groups obj arm jointBindingIndex (g # gs) ji jw =
     (if jointBindingIndex < 4
      then (if group g < length (vertex_groups obj)
            then bind_groups obj arm (Suc jointBindingIndex) gs
                   (ji[jointBindingIndex := bones_find (bones arm) (vertex_groups obj ! group g)])
                   (jw[jointBindingIndex := weight g])
            else Inl IndexError)
      else bind_groups obj arm (Suc jointBindingIndex) gs ji jw)"

text \<open>Lines 107 to 123: the Vertex of one corner of a polygon.\<close>

definition corner_vertex :: "'m MeshObject \<Rightarrow> 'm Armature option \<Rightarrow> Mesh \<Rightarrow> nat
    \<Rightarrow> error + Vertex" where
  "corner_vertex obj armature mesh loopIndex =
     (if loopIndex < length (loops mesh) then
        let loop = loops mesh ! loopIndex in
        if vertex_index loop < length (vertices mesh) then
          let v = vertices mesh ! vertex_index loop in
          case uv_layers_active mesh of
            None \<Rightarrow> Inl AttributeError
          | Some data \<Rightarrow>
              if loopIndex < length data then
                case (case armature of
                        None \<Rightarrow> Inr ([0, 0, 0, 0], [0, 0, 0, 0])
                      | Some arm \<Rightarrow> bind_groups obj arm 0 (groups v) [0, 0, 0, 0] [0, 0, 0, 0]) of
                  Inl e \<Rightarrow> Inl e
                | Inr b \<Rightarrow>
                    (case normalizeJointWeights (snd b) of
                       Inl e \<Rightarrow> Inl e
                     | Inr w \<Rightarrow>
                         Inr \<lparr>position = undeformed_co v,
                              uv = (fst (data ! loopIndex), 1 - snd (data ! loopIndex)),
                              normal = loop_normal loop,
                              jointIndices = fst b, jointWeights = w\<rparr>)
              else Inl IndexError
        else Inl IndexError
      else Inl IndexError)"

fun corners_loop :: "'m MeshObject \<Rightarrow> 'm Armature option \<Rightarrow> Mesh \<Rightarrow> vdict \<Rightarrow> int list
    \<Rightarrow> nat list \<Rightarrow> error + (vdict \<times> int list)" where
  "corners_loop obj armature mesh vs faceIndices [] = Inr (vs, faceIndices)"
| "corners_loop obj armature mesh vs faceIndices (loopIndex # rest) =
     (case corner_vertex obj armature mesh loopIndex of
        Inl e \<Rightarrow> Inl e
      | Inr vertex \<Rightarrow>
          (case intern vs vertex of
             Inl e \<Rightarrow> Inl e
           | Inr r \<Rightarrow> corners_loop obj armature mesh (fst r) (faceIndices @ [snd r]) rest))"

fun polygons_loop :: "'m MeshObject \<Rightarrow> 'm Armature option \<Rightarrow> Mesh \<Rightarrow> vdict \<Rightarrow> int list list
    \<Rightarrow> nat list list \<Rightarrow> error + (vdict \<times> int list list)" where
  "polygons_loop obj armature mesh vs faces [] = Inr (vs, faces)"
| "polygons_loop obj armature mesh vs faces (polygon # rest) =
     (if length polygon = 3
      then (case corners_loop obj armature mesh vs [] polygon of
              Inl e \<Rightarrow> Inl e
            | Inr r \<Rightarrow> polygons_loop obj armature mesh (fst r) (faces @ [snd r]) rest)
      else polygons_loop obj armature mesh vs faces rest)"

text \<open>Lines 97 to 101: the mesh the polygons are read from.\<close>

definition evaluated_mesh :: "'m bpy \<Rightarrow> 'm \<Rightarrow> 'm MeshObject \<Rightarrow> Mesh" where
  "evaluated_mesh ops transformMatrix obj =
     calc_normals_split ops (triangulate ops
       (mesh_transform ops (matmul ops transformMatrix (matrix_world obj)) (to_mesh obj)))"

fun objects_loop :: "'m bpy \<Rightarrow> 'm Armature option \<Rightarrow> 'm \<Rightarrow> vdict \<Rightarrow> int list list
    \<Rightarrow> 'm MeshObject list \<Rightarrow> error + (vdict \<times> int list list)" where
  "objects_loop ops armature transformMatrix vs faces [] = Inr (vs, faces)"
| "objects_loop ops armature transformMatrix vs faces (obj # rest) =
     (let mesh = evaluated_mesh ops transformMatrix obj
      in case polygons_loop obj armature mesh vs faces (polygons mesh) of
           Inl e \<Rightarrow> Inl e
         | Inr r \<Rightarrow> objects_loop ops armature transformMatrix (fst r) (snd r) rest)"

definition getDataFromMeshObjects :: "'m bpy \<Rightarrow> 'm MeshObject list \<Rightarrow> 'm Armature option \<Rightarrow> 'm
    \<Rightarrow> error + (Vertex list \<times> int list list)" where
  "getDataFromMeshObjects ops objects armature transformMatrix =
     (case objects_loop ops armature transformMatrix [] [] objects of
        Inl e \<Rightarrow> Inl e
      | Inr r \<Rightarrow> Inr (map fst (fst r), snd r))"

fun getSelectedMeshObjects :: "'m Object list \<Rightarrow> 'm MeshObject list" where
  "getSelectedMeshObjects [] = []"
| "getSelectedMeshObjects (MESH m # rest) = m # getSelectedMeshObjects rest"
| "getSelectedMeshObjects (obj # rest) = getSelectedMeshObjects rest"

fun getSelectedArmature :: "'m Object list \<Rightarrow> 'm Armature option" where
  "getSelectedArmature [] = None"
| "getSelectedArmature (ARMATURE a # rest) = Some a"
| "getSelectedArmature (obj # rest) = getSelectedArmature rest"

definition getAxisMappingMatrix :: "'m bpy \<Rightarrow> 'm Scene \<Rightarrow> error + 'm" where
  "getAxisMappingMatrix ops scene =
     axis_conversion ops Axis_negY Axis_Z (forwardAxis scene) (upAxis scene)"

definition setArmaturePosition :: "world \<Rightarrow> pose_position \<Rightarrow> world" where
  "setArmaturePosition w p = w\<lparr>armature_pose_position := p\<rparr>"

text \<open>Lines 223 to 228: open the mesh file and write it.\<close>

definition write_mesh_file :: "bool \<Rightarrow> Vertex list \<Rightarrow> int list list \<Rightarrow> outfile outcome" where
  "write_mesh_file hasArmature vs faces =
     andThen (writeBool [] hasArmature)
       (\<lambda>f. andThen (writeUint16 f (int (length faces)))
       (\<lambda>f. andThen (writeUint16 f (int (length vs)))
       (\<lambda>f. andThen (writeFaces f faces)
       (\<lambda>f. writeVertices f vs hasArmature))))"

definition ExportMeshOperator_execute :: "'m bpy \<Rightarrow> 'm Scene \<Rightarrow> world \<Rightarrow> world outcome" where
  "ExportMeshOperator_execute ops scene w =
     (let armature = getSelectedArmature (selected_objects scene);
          originalArmaturePosition =
            (if armature \<noteq> None then armature_pose_position w else REST);
          w1 = (if armature \<noteq> None then setArmaturePosition w REST else w);
          objects = getSelectedMeshObjects (selected_objects scene)
      in andThen
           (if length objects > 0 then
              (case getAxisMappingMatrix ops scene of
                 Inl e \<Rightarrow> (Some e, w1)
               | Inr t \<Rightarrow>
                   (case getDataFromMeshObjects ops objects armature t of
                      Inl e \<Rightarrow> (Some e, w1)
                    | Inr d \<Rightarrow>
                        if meshPath_writable scene
                        then (let r = write_mesh_file (armature \<noteq> None) (fst d) (snd d)
                              in (fst r, w1\<lparr>created := True, written := snd r\<rparr>))
                        else (Some OSError, w1)))
            else (None, w1))
           (\<lambda>w2. (None, if armature \<noteq> None
                         then setArmaturePosition w2 originalArmaturePosition else w2)))"

section \<open>The skeleton and animation file\<close>

definition writeJoint :: "'m bpy \<Rightarrow> 'm Armature \<Rightarrow> 'm \<Rightarrow> outfile \<Rightarrow> 'm Bone \<Rightarrow> outfile outcome" where
  "writeJoint ops armature transform f bone =
     andThen (writeUint8 f (case parent bone of
                              Some p \<Rightarrow> bones_find (bones armature) p
                            | None \<Rightarrow> 0))
       (\<lambda>f. case inverted ops (matmul ops transform (matrix_local bone)) of
              None \<Rightarrow> (Some ValueError, f)
            | Some inverseModelSpacePose \<Rightarrow>
                write_all (write_all writeFloat) f (rows ops inverseModelSpacePose))"

definition writeJoints :: "'m bpy \<Rightarrow> outfile \<Rightarrow> 'm Armature \<Rightarrow> 'm \<Rightarrow> outfile outcome" where
  "writeJoints ops f armature transform =
     write_all (writeJoint ops armature transform) f (bones armature)"

text \<open>\<open>int(x)\<close> on a float truncates towards zero.\<close>

definition py_int :: "num \<Rightarrow> int" where
  "py_int r = (if r < 0 then \<lceil>r\<rceil> else \<lfloor>r\<rfloor>)"

text \<open>\<open>bone.matrix\<close> of a pose bone, as Blender evaluates it in the current session state.\<close>

definition pose_bone_matrix :: "'m bpy \<Rightarrow> world \<Rightarrow> pystr \<Rightarrow> 'm" where
  "pose_bone_matrix ops w nm =
     bone_matrix ops (action w) (frame_current w) (armature_pose_position w) nm"

text \<open>Lines 157 to 161.\<close>

definition parentSpacePose :: "'m bpy \<Rightarrow> 'm \<Rightarrow> world \<Rightarrow> 'm Bone \<Rightarrow> error + 'm" where
  "parentSpacePose ops transform w bone =
     (case parent bone of
        Some p \<Rightarrow>
          (case inverted ops (pose_bone_matrix ops w p) of
             None \<Rightarrow> Inl ValueError
           | Some i \<Rightarrow> Inr (matmul ops i (pose_bone_matrix ops w (bone_name bone))))
      | None \<Rightarrow> Inr (matmul ops transform (pose_bone_matrix ops w (bone_name bone))))"

text \<open>Lines 162 to 175: the ten floats of one pose, in the order they are written.\<close>

definition pose_floats :: "'m bpy \<Rightarrow> 'm \<Rightarrow> num list" where
  "pose_floats ops m =
     [vx (to_translation ops m), vy (to_translation ops m), vz (to_translation ops m),
      qw (to_quaternion ops m), qx (to_quaternion ops m), qy (to_quaternion ops m),
      qz (to_quaternion ops m),
      vx (to_scale ops m), vy (to_scale ops m), vz (to_scale ops m)]"

definition writePose :: "'m bpy \<Rightarrow> 'm \<Rightarrow> world \<Rightarrow> 'm Bone \<Rightarrow> world outcome" where
  "writePose ops transform w bone =
     (case parentSpacePose ops transform w bone of
        Inl e \<Rightarrow> (Some e, w)
      | Inr m \<Rightarrow> on_file (\<lambda>f. write_all writeFloat f (pose_floats ops m)) w)"

text \<open>The body of \<open>for frame in range(startFrame, endFrame+1)\<close>.\<close>

definition writeFrame :: "'m bpy \<Rightarrow> 'm Armature \<Rightarrow> 'm \<Rightarrow> world \<Rightarrow> int \<Rightarrow> world outcome" where
  "writeFrame ops armature transform w frame =
     write_all (writePose ops transform) (w\<lparr>frame_current := frame\<rparr>) (bones armature)"

definition writeAnimation :: "'m bpy \<Rightarrow> world \<Rightarrow> 'm Armature \<Rightarrow> Action \<Rightarrow> 'm \<Rightarrow> world outcome" where
  "writeAnimation ops w armature animation transform =
     (let startFrame = py_int (fst (frame_range animation));
          endFrame = py_int (snd (frame_range animation));
          w1 = w\<lparr>action := Some animation\<rparr>
      in andThen (on_file (\<lambda>f. writeUint32 f (endFrame - startFrame + 1)) w1)
           (\<lambda>w. andThen (on_file (\<lambda>f. writeUint32 f (int (length (action_name animation)))) w)
           (\<lambda>w. andThen (on_file (\<lambda>f. writeString f (action_name animation)) w)
           (\<lambda>w. write_all (writeFrame ops armature transform) w [startFrame..endFrame]))))"

text \<open>
  The body of \<open>for animation in bpy.data.actions\<close>: the argument
  \<open>getAxisMappingMatrix()\<close> is evaluated before the call.
\<close>

definition export_animation :: "'m bpy \<Rightarrow> 'm Scene \<Rightarrow> 'm Armature \<Rightarrow> world \<Rightarrow> Action
    \<Rightarrow> world outcome" where
  "export_animation ops scene armature w animation =
     (case getAxisMappingMatrix ops scene of
        Inl e \<Rightarrow> (Some e, w)
      | Inr t \<Rightarrow> writeAnimation ops w armature animation t)"

definition ExportSkeletonOperator_execute :: "'m bpy \<Rightarrow> 'm Scene \<Rightarrow> world \<Rightarrow> world outcome" where
  "ExportSkeletonOperator_execute ops scene w =
     (case getSelectedArmature (selected_objects scene) of
        None \<Rightarrow> (Some AttributeError, w)
      | Some armature \<Rightarrow>
          let originalArmaturePosition = armature_pose_position w in
          if \<not> has_animation_data armature then (Some AttributeError, w)
          else
            let originalAnimation = action w;
                originalFrame = frame_current w;
                w1 = setArmaturePosition w POSE
            in if \<not> skeletonPath_writable scene then (Some OSError, w1)
               else
                 andThen (on_file (\<lambda>f. writeUint8 f (int (length (bones armature))))
                            (w1\<lparr>created := True, written := []\<rparr>))
                   (\<lambda>w. andThen
                          (case getAxisMappingMatrix ops scene of
                             Inl e \<Rightarrow> (Some e, w)
                           | Inr t \<Rightarrow> on_file (\<lambda>f. writeJoints ops f armature t) w)
                   (\<lambda>w. andThen (on_file (\<lambda>f. writeUint32 f (int (length (actions scene)))) w)
                   (\<lambda>w. andThen (write_all (export_animation ops scene armature) w (actions scene))
                   (\<lambda>w. (None, setArmaturePosition
                                  (w\<lparr>frame_current := originalFrame, action := originalAnimation\<rparr>)
                                  originalArmaturePosition))))))"

section \<open>A sample instance and sample scenes\<close>

text \<open>
  For concrete runs: matrices restricted to a uniform scale followed by a translation
  (they are closed under product and inverse, and their decomposition is exact), the
  default axes only (the conversion is then the identity; this instance refuses every
  other choice), and meshes that are triangulated already. Every bone's pose under an
  action at frame \<open>f\<close> is the translation by \<open>(f, 0, 0)\<close>, scaled by 2 for the bone
  "B".
\<close>

record Similarity =
  sim_scale :: num
  sim_offset :: Vector

definition sim_identity :: Similarity where
  "sim_identity = \<lparr>sim_scale = 1, sim_offset = \<lparr>vx = 0, vy = 0, vz = 0\<rparr>\<rparr>"

definition sim_apply :: "Similarity \<Rightarrow> Vector \<Rightarrow> Vector" where
  "sim_apply a p =
     \<lparr>vx = sim_scale a * vx p + vx (sim_offset a),
      vy = sim_scale a * vy p + vy (sim_offset a),
      vz = sim_scale a * vz p + vz (sim_offset a)\<rparr>"

definition sim_inverted :: "Similarity \<Rightarrow> Similarity option" where
  "sim_inverted a =
     (if sim_scale a = 0 then None
      else Some \<lparr>sim_scale = 1 / sim_scale a,
                 sim_offset = \<lparr>vx = - vx (sim_offset a) / sim_scale a,
                               vy = - vy (sim_offset a) / sim_scale a,
                               vz = - vz (sim_offset a) / sim_scale a\<rparr>\<rparr>)"

definition sim_rows :: "Similarity \<Rightarrow> num list list" where
  "sim_rows a =
     [[sim_scale a, 0, 0, vx (sim_offset a)],
      [0, sim_scale a, 0, vy (sim_offset a)],
      [0, 0, sim_scale a, vz (sim_offset a)],
      [0, 0, 0, 1]]"

definition sample_bpy :: "Similarity bpy" where
  "sample_bpy =
     \<lparr>matmul = (\<lambda>a b. \<lparr>sim_scale = sim_scale a * sim_scale b,
                         sim_offset = sim_apply a (sim_offset b)\<rparr>),
      inverted = sim_inverted,
      rows = sim_rows,
      to_translation = sim_offset,
      to_quaternion = (\<lambda>a. \<lparr>qw = 1, qx = 0, qy = 0, qz = 0\<rparr>),
      to_scale = (\<lambda>a. \<lparr>vx = \<bar>sim_scale a\<bar>, vy = \<bar>sim_scale a\<bar>, vz = \<bar>sim_scale a\<bar>\<rparr>),
      axis_conversion = (\<lambda>ff fu tf tu.
         if tf = Axis_negY \<and> tu = Axis_Z then Inr sim_identity else Inl AxisError),
      mesh_transform = (\<lambda>a m. m\<lparr>vertices :=
         map (\<lambda>v. v\<lparr>undeformed_co := sim_apply a (undeformed_co v)\<rparr>) (vertices m)\<rparr>),
      triangulate = (\<lambda>m. m),
      calc_normals_split = (\<lambda>m. m),
      bone_matrix = (\<lambda>a frame p nm.
         if p = POSE \<and> a \<noteq> None
         then \<lparr>sim_scale = (if nm = [66] then 2 else 1),
               sim_offset = \<lparr>vx = of_int frame, vy = 0, vz = 0\<rparr>\<rparr>
         else sim_identity)\<rparr>"

definition world0 :: world where
  "world0 = \<lparr>frame_current = 7, action = None, armature_pose_position = REST,
             created = False, written = []\<rparr>"

text \<open>
  What writePose appends to the file for one bone: the ten floats of its parent-space
  pose, and nothing when the pose cannot be computed.
\<close>

definition pose_record :: "'m bpy \<Rightarrow> 'm \<Rightarrow> world \<Rightarrow> 'm Bone \<Rightarrow> item list" where
  "pose_record ops transform w bone =
     (case parentSpacePose ops transform w bone of
        Inl e \<Rightarrow> []
      | Inr m \<Rightarrow> map Pack_f (pose_floats ops m))"

text \<open>The values of the locals \<open>startFrame\<close> and \<open>endFrame\<close> of writeAnimation.\<close>

definition startFrame :: "Action \<Rightarrow> int" where
  "startFrame animation = py_int (fst (frame_range animation))"

definition endFrame :: "Action \<Rightarrow> int" where
  "endFrame animation = py_int (snd (frame_range animation))"

text \<open>
  A root bone "A", its child "B" and the child "C" of "B"; an action "run" over the frames 2 to 3, and an
  action whose name is the single letter e with an acute accent (code point 233).
\<close>

definition sample_armature :: "Similarity Armature" where
  "sample_armature =
     \<lparr>bones = [\<lparr>bone_name = [65], parent = None, matrix_local = sim_identity\<rparr>,
               \<lparr>bone_name = [66], parent = Some [65],
                matrix_local = \<lparr>sim_scale = 2, sim_offset = \<lparr>vx = 0, vy = 1, vz = 0\<rparr>\<rparr>\<rparr>,
               \<lparr>bone_name = [67], parent = Some [66], matrix_local = sim_identity\<rparr>],
      has_animation_data = True\<rparr>"

definition sample_action :: Action where
  "sample_action = \<lparr>action_name = [114, 117, 110], frame_range = (2, 3)\<rparr>"

definition accent_action :: Action where
  "accent_action = \<lparr>action_name = [233], frame_range = (2, 3)\<rparr>"

text \<open>
  A corner can be read: its loop, its vertex and its UV exist, and (when an armature is
  selected) the first four vertex groups of its vertex are groups of the object.
\<close>

definition corner_ok :: "'m MeshObject \<Rightarrow> 'm Armature option \<Rightarrow> Mesh \<Rightarrow> nat \<Rightarrow> bool" where
  "corner_ok obj armature mesh loopIndex \<longleftrightarrow>
     loopIndex < length (loops mesh)
     \<and> vertex_index (loops mesh ! loopIndex) < length (vertices mesh)
     \<and> (\<exists>data. uv_layers_active mesh = Some data \<and> loopIndex < length data)
     \<and> (armature \<noteq> None \<longrightarrow>
          (\<forall>j < length (groups (vertices mesh ! vertex_index (loops mesh ! loopIndex))).
             j < 4 \<longrightarrow>
             group (groups (vertices mesh ! vertex_index (loops mesh ! loopIndex)) ! j)
               < length (vertex_groups obj)))"

text \<open>
  One triangle whose three vertices are in the vertex group "X" with weight 1/2, and a
  scene that selects it together with the sample armature, which has no bone "X".
\<close>

definition tri_mesh :: Mesh where
  "tri_mesh =
     \<lparr>vertices =
        [\<lparr>undeformed_co = \<lparr>vx = 0, vy = 0, vz = 0\<rparr>, groups = [\<lparr>group = 0, weight = 1 / 2\<rparr>]\<rparr>,
         \<lparr>undeformed_co = \<lparr>vx = 1, vy = 0, vz = 0\<rparr>, groups = [\<lparr>group = 0, weight = 1 / 2\<rparr>]\<rparr>,
         \<lparr>undeformed_co = \<lparr>vx = 0, vy = 1, vz = 0\<rparr>, groups = [\<lparr>group = 0, weight = 1 / 2\<rparr>]\<rparr>],
      loops =
        [\<lparr>vertex_index = 0, loop_normal = \<lparr>vx = 0, vy = 0, vz = 1\<rparr>\<rparr>,
         \<lparr>vertex_index = 1, loop_normal = \<lparr>vx = 0, vy = 0, vz = 1\<rparr>\<rparr>,
         \<lparr>vertex_index = 2, loop_normal = \<lparr>vx = 0, vy = 0, vz = 1\<rparr>\<rparr>],
      uv_layers_active = Some [(0, 0), (1, 0), (0, 1)],
      polygons = [[0, 1, 2]]\<rparr>"

definition skinned_object :: "Similarity MeshObject" where
  "skinned_object = \<lparr>vertex_groups = [[88]], matrix_world = sim_identity, to_mesh = tri_mesh\<rparr>"

definition skinned_scene :: "Similarity Scene" where
  "skinned_scene =
     \<lparr>selected_objects = [MESH skinned_object, ARMATURE sample_armature],
      actions = [sample_action], forwardAxis = Axis_negY, upAxis = Axis_Z,
      meshPath_writable = True, skeletonPath_writable = True\<rparr>"

text \<open>The same scene with the action whose name is not ASCII.\<close>

definition accent_scene :: "Similarity Scene" where
  "accent_scene = skinned_scene\<lparr>actions := [accent_action]\<rparr>"

text \<open>
  What the skeleton export writes for the sample armature: its three joint records, and
  its poses at the frames 2 and 3 of an action.
\<close>

definition sample_joints :: "item list" where
  "sample_joints =
     Pack_B 0 # map Pack_f [1, 0, 0, 0,  0, 1, 0, 0,  0, 0, 1, 0,  0, 0, 0, 1]
     @ Pack_B 0 # map Pack_f [1 / 2, 0, 0, 0,  0, 1 / 2, 0, - 1 / 2,  0, 0, 1 / 2, 0,  0, 0, 0, 1]
     @ Pack_B 1 # map Pack_f [1, 0, 0, 0,  0, 1, 0, 0,  0, 0, 1, 0,  0, 0, 0, 1]"

definition sample_poses :: "item list" where
  "sample_poses = map Pack_f
     [2, 0, 0, 1, 0, 0, 0, 1, 1, 1,
      0, 0, 0, 1, 0, 0, 0, 2, 2, 2,
      0, 0, 0, 1, 0, 0, 0, 1 / 2, 1 / 2, 1 / 2,
      3, 0, 0, 1, 0, 0, 0, 1, 1, 1,
      0, 0, 0, 1, 0, 0, 0, 2, 2, 2,
      0, 0, 0, 1, 0, 0, 0, 1 / 2, 1 / 2, 1 / 2]"

text \<open>
  For the statements about getDataFromMeshObjects: the Vertex of a corner that can be
  read, a mesh all of whose triangle corners can be read, and the corners of its
  triangles, triangle by triangle, in the order the export visits them.
\<close>

definition corner_of :: "'m MeshObject \<Rightarrow> 'm Armature option \<Rightarrow> Mesh \<Rightarrow> nat \<Rightarrow> Vertex" where
  "corner_of obj armature mesh loopIndex = projr (corner_vertex obj armature mesh loopIndex)"

definition mesh_ok :: "'m MeshObject \<Rightarrow> 'm Armature option \<Rightarrow> Mesh \<Rightarrow> bool" where
  "mesh_ok obj armature mesh \<longleftrightarrow>
     (\<forall>polygon \<in> set (polygons mesh). length polygon = 3 \<longrightarrow>
        (\<forall>loopIndex \<in> set polygon. corner_ok obj armature mesh loopIndex))"

definition triangle_corners :: "'m MeshObject \<Rightarrow> 'm Armature option \<Rightarrow> Mesh \<Rightarrow> Vertex list list" where
  "triangle_corners obj armature mesh =
     map (map (corner_of obj armature mesh))
       (filter (\<lambda>polygon. length polygon = 3) (polygons mesh))"

definition scene_corners :: "'m bpy \<Rightarrow> 'm Armature option \<Rightarrow> 'm \<Rightarrow> 'm MeshObject list
    \<Rightarrow> Vertex list list" where
  "scene_corners ops armature transformMatrix objects =
     concat (map (\<lambda>obj. triangle_corners obj armature (evaluated_mesh ops transformMatrix obj))
               objects)"

text \<open>
  Meshes for the capacity limits: \<open>soup_mesh n k\<close> has \<open>n\<close> triangles over \<open>k\<close>
  vertices, the loop \<open>i\<close> being at the vertex \<open>i mod k\<close>; the vertex \<open>i\<close> is at
  \<open>(i, 0, 0)\<close>. With \<open>k = 3\<close> all triangles share three vertices, with \<open>k = 3 * n\<close>
  no two corners share a vertex. The scenes select one such object and no armature, or
  only an armature of 256 root bones.
\<close>

definition soup_mesh :: "nat \<Rightarrow> nat \<Rightarrow> Mesh" where
  "soup_mesh n k =
     \<lparr>vertices = map (\<lambda>i. \<lparr>undeformed_co = \<lparr>vx = of_nat i, vy = 0, vz = 0\<rparr>, groups = []\<rparr>)
                   [0..<k],
      loops = map (\<lambda>i. \<lparr>vertex_index = i mod k, loop_normal = \<lparr>vx = 0, vy = 0, vz = 1\<rparr>\<rparr>)
                [0..<3 * n],
      uv_layers_active = Some (replicate (3 * n) (0, 1)),
      polygons = map (\<lambda>j. [3 * j, 3 * j + 1, 3 * j + 2]) [0..<n]\<rparr>"

definition soup_object :: "nat \<Rightarrow> nat \<Rightarrow> Similarity MeshObject" where
  "soup_object n k = \<lparr>vertex_groups = [], matrix_world = sim_identity, to_mesh = soup_mesh n k\<rparr>"

definition soup_scene :: "nat \<Rightarrow> nat \<Rightarrow> Similarity Scene" where
  "soup_scene n k =
     \<lparr>selected_objects = [MESH (soup_object n k)],
      actions = [], forwardAxis = Axis_negY, upAxis = Axis_Z,
      meshPath_writable = True, skeletonPath_writable = True\<rparr>"

definition many_bones :: "Similarity Armature" where
  "many_bones =
     \<lparr>bones = map (\<lambda>i. \<lparr>bone_name = [i], parent = None, matrix_local = sim_identity\<rparr>) [0..<256],
      has_animation_data = True\<rparr>"

definition many_bones_scene :: "Similarity Scene" where
  "many_bones_scene =
     \<lparr>selected_objects = [ARMATURE many_bones],
      actions = [], forwardAxis = Axis_negY, upAxis = Axis_Z,
      meshPath_writable = True, skeletonPath_writable = True\<rparr>"

section \<open>Properties of normalizeJointWeights\<close>

lemma normalize_loop_4:
  "t \<noteq> 0 \<Longrightarrow>
   normalize_loop t 0 [a, b, c, d] [0, 0, 0, 0] = Inr [a / t, b / t, c / t, d / t]"
  by simp

lemma list4_cases:
  assumes "length ws = 4"
  obtains a b c d where "ws = [a, b, c, d]"
proof -
  from assms obtain a b c d where "ws = [a, b, c, d]"
    by (auto simp: length_Suc_conv numeral_eq_Suc)
  then show ?thesis by (rule that)
qed

lemma normalize_loop_no_zero_division:
  "t \<noteq> 0 \<Longrightarrow> normalize_loop t i ws r \<noteq> Inl ZeroDivisionError"
  by (induction ws arbitrary: i r) auto

lemma normalizeJointWeights_4:
  "length ws = 4 \<Longrightarrow>
   normalizeJointWeights ws =
     Inr (if sum_list ws = 0 then [0, 0, 0, 0] else map (\<lambda>w. w / sum_list ws) ws)"
proof -
  assume "length ws = 4"
  then obtain a b c d where ws: "ws = [a, b, c, d]" by (rule list4_cases)
  show ?thesis by (simp add: ws normalizeJointWeights_def Let_def add.assoc)
qed

text \<open>
  C2. For a list of four weights, normalizeJointWeights returns the weights divided by
  their sum when the sum is not zero, and then the result sums to 1 (exactly, in the
  idealised arithmetic); it returns [0,0,0,0] when the sum is zero. It never raises
  ZeroDivisionError, for a list of any length: the division is guarded.
\<close>

theorem normalizeJointWeights_spec:
  "length ws = 4 \<Longrightarrow>
     normalizeJointWeights ws =
       Inr (if sum_list ws = 0 then [0, 0, 0, 0] else map (\<lambda>w. w / sum_list ws) ws)
     \<and> (sum_list ws \<noteq> 0 \<longrightarrow>
          (\<exists>r. normalizeJointWeights ws = Inr r \<and> length r = 4 \<and> sum_list r = 1))
     \<and> normalizeJointWeights vs \<noteq> Inl ZeroDivisionError"
proof -
  assume len: "length ws = 4"
  then obtain a b c d where ws: "ws = [a, b, c, d]" by (rule list4_cases)
  let ?t = "a + b + c + d"
  from len have eq: "normalizeJointWeights ws =
      Inr (if sum_list ws = 0 then [0, 0, 0, 0] else map (\<lambda>w. w / sum_list ws) ws)"
    by (rule normalizeJointWeights_4)
  have one: "sum_list ws \<noteq> 0 \<longrightarrow>
      (\<exists>r. normalizeJointWeights ws = Inr r \<and> length r = 4 \<and> sum_list r = 1)"
  proof
    assume nz: "sum_list ws \<noteq> 0"
    then have t: "?t \<noteq> 0" by (simp add: ws add.assoc)
    have "a / ?t + b / ?t + c / ?t + d / ?t = ?t / ?t"
      by (simp only: add_divide_distrib)
    with t have "a / ?t + b / ?t + c / ?t + d / ?t = 1" by simp
    with nz show "\<exists>r. normalizeJointWeights ws = Inr r \<and> length r = 4 \<and> sum_list r = 1"
      by (simp add: eq) (simp add: ws add.assoc)
  qed
  have guard: "normalizeJointWeights vs \<noteq> Inl ZeroDivisionError"
    using normalize_loop_no_zero_division [of "sum_list vs" 0 vs "[0, 0, 0, 0]"]
    by (simp add: normalizeJointWeights_def Let_def)
  from eq one guard show ?thesis by blast
qed

theorem normalizeJointWeights_spec_witness:
  "length [1, 1, 2, 0 :: num] = 4
   \<and> normalizeJointWeights [1, 1, 2, 0] = Inr [1 / 4, 1 / 4, 1 / 2, 0]
   \<and> normalizeJointWeights [0, 0, 0, 0] = Inr [0, 0, 0, 0]
   \<and> normalizeJointWeights [1, -1, 0, 0] = Inr [0, 0, 0, 0]"
  using normalizeJointWeights_spec [of "[1, 1, 2, 0]" "[]"]
        normalizeJointWeights_spec [of "[0, 0, 0, 0]" "[]"]
        normalizeJointWeights_spec [of "[1, -1, 0, 0]" "[]"]
  by simp

section \<open>The vertex dictionary assigns indices in first-seen order\<close>

lemma Vertex_eq_iff: "Vertex_eq a b \<longleftrightarrow> a = b"
  by (auto simp: Vertex_eq_def intro!: Vertex.equality)

lemma same_key_iff: "same_key a b \<longleftrightarrow> a = b"
  by (auto simp: same_key_def Vertex_eq_iff)

lemma dict_get_map_of: "dict_get d k = map_of d k"
  by (induction d) (auto simp: dict_get_def same_key_iff)

lemma dict_set_new: "k \<notin> set (map fst d) \<Longrightarrow> dict_set d k v = d @ [(k, v)]"
  by (induction d) (auto simp: same_key_iff)

lemma pos_append_in: "v \<in> set ks \<Longrightarrow> pos (ks @ ext) v = pos ks v"
  by (simp add: pos_def)

lemma pos_append_new: "v \<notin> set ks \<Longrightarrow> pos (ks @ [v]) v = length ks"
  by (auto simp: pos_def takeWhile_append)

lemma seen_before_append_in: "v \<in> set p \<Longrightarrow> seen_before (p @ q) v = seen_before p v"
  by (simp add: seen_before_def)

lemma seen_before_append_new: "v \<notin> set p \<Longrightarrow> seen_before (p @ v # q) v = card (set p)"
  by (auto simp: seen_before_def takeWhile_append)

lemma map_of_pos:
  "distinct (map fst d) \<Longrightarrow> map snd d = map int [0..<length d] \<Longrightarrow> v \<in> set (map fst d)
   \<Longrightarrow> map_of d v = Some (int (pos (map fst d) v))"
proof (induction d rule: rev_induct)
  case Nil
  then show ?case by simp
next
  case (snoc e d)
  from snoc.prems have dist: "distinct (map fst d)" and new: "fst e \<notin> set (map fst d)"
    and vals: "map snd d = map int [0..<length d]" and last: "snd e = int (length d)"
    by auto
  show ?case
  proof (cases "v \<in> set (map fst d)")
    case True
    with snoc.IH dist vals have "map_of d v = Some (int (pos (map fst d) v))" by simp
    with True show ?thesis by (simp add: pos_append_in map_add_def)
  next
    case False
    with snoc.prems have v: "v = fst e" by auto
    from False have "map_of d v = None" by (simp add: map_of_eq_None_iff)
    with v False last show ?thesis
      by (cases e) (simp add: pos_append_new map_add_def)
  qed
qed

lemma intern_step:
  assumes "dict_inv d p"
  shows "\<exists>d'. intern d v = Inr (d', int (pos (map fst d') v)) \<and> dict_inv d' (p @ [v])
           \<and> (\<exists>ext. map fst d' = map fst d @ ext)
           \<and> d' = (if v \<in> set p then d else d @ [(v, int (length d))])"
proof (cases "v \<in> set p")
  case True
  from assms have dist: "distinct (map fst d)" and vals: "map snd d = map int [0..<length d]"
    and keys: "set (map fst d) = set p"
    and idx: "\<forall>u \<in> set p. pos (map fst d) u = seen_before p u"
    by (simp_all add: dict_inv_def)
  from True keys have "v \<in> set (map fst d)" by simp
  with dist vals have get: "dict_get d v = Some (int (pos (map fst d) v))"
    by (simp add: dict_get_map_of map_of_pos)
  then have 1: "intern d v = Inr (d, int (pos (map fst d) v))"
    by (simp add: intern_def)
  have 2: "dict_inv d (p @ [v])"
    using dist vals keys idx True by (auto simp: dict_inv_def seen_before_append_in)
  from 1 2 True show ?thesis by auto
next
  case False
  from assms have dist: "distinct (map fst d)" and vals: "map snd d = map int [0..<length d]"
    and keys: "set (map fst d) = set p"
    and idx: "\<forall>u \<in> set p. pos (map fst d) u = seen_before p u"
    by (simp_all add: dict_inv_def)
  let ?d = "d @ [(v, int (length d))]"
  from False keys have new: "v \<notin> set (map fst d)" by simp
  then have none: "dict_get d v = None"
    by (simp add: dict_get_map_of map_of_eq_None_iff)
  from new have set: "dict_set d v (int (length d)) = ?d" by (rule dict_set_new)
  from new have "map_of d v = None" by (simp add: map_of_eq_None_iff)
  then have get: "dict_get ?d v = Some (int (length d))"
    by (simp add: dict_get_map_of map_add_def)
  from new have p: "pos (map fst ?d) v = length d" by (simp add: pos_append_new)
  from none set get p have 1: "intern d v = Inr (?d, int (pos (map fst ?d) v))"
    by (simp add: intern_def)
  from dist keys have card: "card (set p) = length d"
    using distinct_card [of "map fst d"] by simp
  have 2: "dict_inv ?d (p @ [v])"
    unfolding dict_inv_def
  proof (intro conjI ballI)
    show "distinct (map fst ?d)" using dist new by simp
    show "map snd ?d = map int [0..<length ?d]" using vals by simp
    show "set (map fst ?d) = set (p @ [v])" using keys by auto
  next
    fix u assume u: "u \<in> set (p @ [v])"
    show "pos (map fst ?d) u = seen_before (p @ [v]) u"
    proof (cases "u = v")
      case True
      with p False card show ?thesis by (simp add: seen_before_append_new)
    next
      case neq: False
      with u have "u \<in> set p" by simp
      with idx keys show ?thesis
        using pos_append_in [of u "map fst d" "[v]"] by (simp add: seen_before_append_in)
    qed
  qed
  from 1 2 False show ?thesis by auto
qed

lemma intern_stream_inv:
  "dict_inv d p \<Longrightarrow>
   \<exists>d' ext. intern_stream d out vs = Inr (d', out @ map (\<lambda>v. int (pos (map fst d') v)) vs)
      \<and> dict_inv d' (p @ vs) \<and> map fst d' = map fst d @ ext"
proof (induction vs arbitrary: d out p)
  case Nil
  then show ?case by simp
next
  case (Cons v vs)
  from intern_step [OF Cons.prems, of v] obtain d1 ext1
    where 1: "intern d v = Inr (d1, int (pos (map fst d1) v))"
      and inv1: "dict_inv d1 (p @ [v])" and ext1: "map fst d1 = map fst d @ ext1"
    by blast
  from Cons.IH [OF inv1, of "out @ [int (pos (map fst d1) v)]"] obtain d' ext
    where 2: "intern_stream d1 (out @ [int (pos (map fst d1) v)]) vs
                = Inr (d', (out @ [int (pos (map fst d1) v)]) @ map (\<lambda>v. int (pos (map fst d') v)) vs)"
      and inv': "dict_inv d' ((p @ [v]) @ vs)" and ext: "map fst d' = map fst d1 @ ext"
    by blast
  from inv1 have "v \<in> set (map fst d1)" by (simp add: dict_inv_def)
  with ext have same: "pos (map fst d') v = pos (map fst d1) v" by (simp add: pos_append_in)
  from 1 2 same have "intern_stream d out (v # vs)
      = Inr (d', out @ map (\<lambda>v. int (pos (map fst d') v)) (v # vs))" by simp
  moreover from inv' have "dict_inv d' (p @ v # vs)" by simp
  moreover from ext ext1 have "map fst d' = map fst d @ (ext1 @ ext)" by simp
  ultimately show ?case by blast
qed


lemma vtx_eq_iff: "vtx x u = vtx x' u' \<longleftrightarrow> x = x' \<and> u = u'"
  by (auto simp: vtx_def)

section \<open>What the Vertex hash covers\<close>









section \<open>Sequencing and the primitive writers\<close>

lemma andThen_None [simp]: "andThen (None, s) k = k s"
  by (simp add: andThen_def)

lemma andThen_Some [simp]: "andThen (Some e, s) k = (Some e, s)"
  by (simp add: andThen_def)

lemma writeFloat_wb [simp]: "writeFloat f v = (None, f @ [Pack_f v])"
  by (simp add: writeFloat_def fileWriteMode_def)

lemma writeBool_wb [simp]: "writeBool f v = (None, f @ [Pack_bool v])"
  by (simp add: writeBool_def fileWriteMode_def)

lemma writeUint8_wb:
  "writeUint8 f v = (if 0 \<le> v \<and> v < 256 then (None, f @ [Pack_B v]) else (Some StructError, f))"
  by (simp add: writeUint8_def fileWriteMode_def)

lemma writeUint16_wb:
  "writeUint16 f v = (if 0 \<le> v \<and> v < 65536 then (None, f @ [Pack_H v]) else (Some StructError, f))"
  by (simp add: writeUint16_def fileWriteMode_def)

lemma writeUint32_wb:
  "writeUint32 f v = (if 0 \<le> v \<and> v < 2 ^ 32 then (None, f @ [Pack_I v]) else (Some StructError, f))"
  by (simp add: writeUint32_def fileWriteMode_def)

lemma writeString_wb:
  "writeString f t = (if \<forall>c \<in> set t. c < 128 then (None, f @ [Encoded t])
                      else (Some UnicodeEncodeError, f))"
  by (simp add: writeString_def fileWriteMode_def)

lemma write_all_append:
  "(\<And>x f. x \<in> set xs \<Longrightarrow> w f x = (None, f @ g x)) \<Longrightarrow>
   write_all w f xs = (None, f @ concat (map g xs))"
  by (induction xs arbitrary: f) simp_all

lemma write_all_floats [simp]: "write_all writeFloat f xs = (None, f @ map Pack_f xs)"
proof -
  have "write_all writeFloat f xs = (None, f @ concat (map (\<lambda>x. [Pack_f x]) xs))"
    by (rule write_all_append) simp
  also have "concat (map (\<lambda>x. [Pack_f x]) xs) = map Pack_f xs"
    by (induction xs) simp_all
  finally show ?thesis .
qed

lemma write_all_float_rows:
  "write_all (write_all writeFloat) f rs = (None, f @ map Pack_f (concat rs))"
proof -
  have "write_all (write_all writeFloat) f rs = (None, f @ concat (map (map Pack_f) rs))"
    by (rule write_all_append) simp
  then show ?thesis by (simp add: map_concat)
qed

lemma on_file_simps [simp]:
  "k (written w) = (e, f) \<Longrightarrow> on_file k w = (e, w\<lparr>written := f\<rparr>)"
  by (simp add: on_file_def)

section \<open>Bone positions\<close>

lemma pos_less: "v \<in> set xs \<Longrightarrow> pos xs v < length xs"
  by (induction xs) (auto simp: pos_def)

lemma pos_nth: "distinct xs \<Longrightarrow> p < length xs \<Longrightarrow> pos xs (xs ! p) = p"
proof (induction xs arbitrary: p)
  case Nil
  then show ?case by simp
next
  case (Cons a xs)
  show ?case
  proof (cases p)
    case 0
    then show ?thesis by (simp add: pos_def)
  next
    case (Suc q)
    with Cons.prems have "xs ! q \<noteq> a" by auto
    with Suc Cons show ?thesis by (simp add: pos_def)
  qed
qed

lemma bones_find_nth:
  "distinct (map bone_name bs) \<Longrightarrow> p < length bs \<Longrightarrow> bones_find bs (bone_name (bs ! p)) = int p"
  using pos_nth [of "map bone_name bs" p] by (simp add: bones_find_def)

lemma bones_find_range:
  "nm \<in> set (map bone_name bs) \<Longrightarrow> 0 \<le> bones_find bs nm \<and> bones_find bs nm < int (length bs)"
  using pos_less [of nm "map bone_name bs"] by (simp add: bones_find_def)

lemma bones_find_missing: "nm \<notin> set (map bone_name bs) \<Longrightarrow> bones_find bs nm = - 1"
  by (simp add: bones_find_def)

section \<open>writeJoints\<close>

lemma writeJoint_ok:
  assumes par: "\<And>p. parent b = Some p \<Longrightarrow> p \<in> set (map bone_name (bones arm))"
    and len: "length (bones arm) \<le> 256"
    and inv: "inverted ops (matmul ops t (matrix_local b)) = Some i"
  shows "writeJoint ops arm t f b =
           (None, f @ Pack_B (case parent b of Some p \<Rightarrow> bones_find (bones arm) p | None \<Rightarrow> 0)
                       # map Pack_f (concat (rows ops i)))"
proof (cases "parent b")
  case None
  with inv show ?thesis by (simp add: writeJoint_def writeUint8_wb write_all_float_rows)
next
  case (Some p)
  with par have "p \<in> set (map bone_name (bones arm))" by simp
  from bones_find_range [OF this] len
  have "0 \<le> bones_find (bones arm) p \<and> bones_find (bones arm) p < 256" by simp
  with Some inv show ?thesis by (simp add: writeJoint_def writeUint8_wb write_all_float_rows)
qed


lemma length_concat_4x4:
  assumes "length rs = 4" and "\<forall>r \<in> set rs. length r = 4"
  shows "length (concat rs) = 16"
proof -
  from assms(1) obtain a b c d where "rs = [a, b, c, d]" by (rule list4_cases)
  with assms(2) show ?thesis by simp
qed

text \<open>
  C8. For an armature whose bone names are distinct, whose parents are bones of the
  armature, with at most 256 bones and invertible model-space rest poses, and 4x4
  matrices: writeJoints does not raise and appends one record per bone, in the order of
  the armature's bone list (the list writeAnimation iterates too). The record of bone
  \<open>j\<close> is the parent index as one unsigned byte, then the 16 floats of the inverse of
  \<open>transform @ bone.matrix_local\<close>, row by row. The parent index is 0 for a bone without
  parent and \<open>p\<close> for a bone whose parent is the bone at position \<open>p\<close>.
\<close>

theorem writeJoints_spec:
  assumes names: "distinct (map bone_name (bones arm))"
    and par: "\<forall>b \<in> set (bones arm). \<forall>p. parent b = Some p \<longrightarrow> p \<in> set (map bone_name (bones arm))"
    and len: "length (bones arm) \<le> 256"
    and inv: "\<forall>b \<in> set (bones arm). inverted ops (matmul ops t (matrix_local b)) \<noteq> None"
    and m44: "\<forall>m. length (rows ops m) = 4 \<and> (\<forall>r \<in> set (rows ops m). length r = 4)"
  shows "\<exists>recs. writeJoints ops f arm t = (None, f @ concat recs)
      \<and> length recs = length (bones arm)
      \<and> (\<forall>j < length (bones arm). \<exists>i parentIndex.
            inverted ops (matmul ops t (matrix_local (bones arm ! j))) = Some i
            \<and> recs ! j = Pack_B parentIndex # map Pack_f (concat (rows ops i))
            \<and> length (concat (rows ops i)) = 16
            \<and> (parent (bones arm ! j) = None \<longrightarrow> parentIndex = 0)
            \<and> (\<forall>p < length (bones arm).
                  parent (bones arm ! j) = Some (bone_name (bones arm ! p)) \<longrightarrow> parentIndex = int p))"
proof -
  let ?bs = "bones arm"
  let ?idx = "\<lambda>b. case parent b of Some p \<Rightarrow> bones_find ?bs p | None \<Rightarrow> (0::int)"
  let ?inv = "\<lambda>b. the (inverted ops (matmul ops t (matrix_local b)))"
  let ?g = "\<lambda>b. Pack_B (?idx b) # map Pack_f (concat (rows ops (?inv b)))"
  have step: "writeJoint ops arm t f' b = (None, f' @ ?g b)" if b: "b \<in> set ?bs" for b f'
  proof -
    from inv b have i: "inverted ops (matmul ops t (matrix_local b)) = Some (?inv b)" by auto
    from par b have p: "\<And>p. parent b = Some p \<Longrightarrow> p \<in> set (map bone_name ?bs)" by blast
    from writeJoint_ok [of b arm ops t "?inv b" f', OF p len i] show ?thesis by simp
  qed
  have run: "writeJoints ops f arm t = (None, f @ concat (map ?g ?bs))"
    unfolding writeJoints_def by (rule write_all_append) (rule step)
  have each: "\<exists>i parentIndex.
            inverted ops (matmul ops t (matrix_local (?bs ! j))) = Some i
            \<and> map ?g ?bs ! j = Pack_B parentIndex # map Pack_f (concat (rows ops i))
            \<and> length (concat (rows ops i)) = 16
            \<and> (parent (?bs ! j) = None \<longrightarrow> parentIndex = 0)
            \<and> (\<forall>p < length ?bs.
                  parent (?bs ! j) = Some (bone_name (?bs ! p)) \<longrightarrow> parentIndex = int p)"
    if j: "j < length ?bs" for j
  proof -
    from j have mem: "?bs ! j \<in> set ?bs" by simp
    with inv obtain i where i: "inverted ops (matmul ops t (matrix_local (?bs ! j))) = Some i"
      by auto
    from m44 have l: "length (concat (rows ops i)) = 16"
      by (intro length_concat_4x4) auto
    have root: "parent (?bs ! j) = None \<longrightarrow> ?idx (?bs ! j) = 0" by simp
    have child: "\<forall>p < length ?bs.
        parent (?bs ! j) = Some (bone_name (?bs ! p)) \<longrightarrow> ?idx (?bs ! j) = int p"
      using names by (auto simp: bones_find_nth)
    from j i have rec: "map ?g ?bs ! j = Pack_B (?idx (?bs ! j)) # map Pack_f (concat (rows ops i))"
      by simp
    show ?thesis
    proof (intro exI conjI)
      show "inverted ops (matmul ops t (matrix_local (?bs ! j))) = Some i" by (rule i)
      show "map ?g ?bs ! j = Pack_B (?idx (?bs ! j)) # map Pack_f (concat (rows ops i))"
        by (rule rec)
      show "length (concat (rows ops i)) = 16" by (rule l)
      show "parent (?bs ! j) = None \<longrightarrow> ?idx (?bs ! j) = 0" by (rule root)
      show "\<forall>p < length ?bs.
          parent (?bs ! j) = Some (bone_name (?bs ! p)) \<longrightarrow> ?idx (?bs ! j) = int p"
        by (rule child)
    qed
  qed
  from run each show ?thesis by (intro exI [of _ "map ?g ?bs"]) simp
qed

section \<open>writeAnimation\<close>

lemma parentSpacePose_cong:
  "action w = action w' \<Longrightarrow> frame_current w = frame_current w' \<Longrightarrow>
   armature_pose_position w = armature_pose_position w' \<Longrightarrow>
   parentSpacePose ops t w b = parentSpacePose ops t w' b"
  by (simp add: parentSpacePose_def pose_bone_matrix_def split: option.splits)

lemma parentSpacePose_written [simp]:
  "parentSpacePose ops t (w\<lparr>written := f\<rparr>) b = parentSpacePose ops t w b"
  by (rule parentSpacePose_cong) simp_all

lemma pose_record_written [simp]:
  "pose_record ops t (w\<lparr>written := f\<rparr>) b = pose_record ops t w b"
  by (simp add: pose_record_def)

lemma writePose_eq:
  "writePose ops t w b =
     (case parentSpacePose ops t w b of
        Inl e \<Rightarrow> (Some e, w)
      | Inr m \<Rightarrow> (None, w\<lparr>written := written w @ pose_record ops t w b\<rparr>))"
  by (simp add: writePose_def pose_record_def on_file_def split: sum.splits)

lemma bones_loop_ok:
  "(\<And>b. b \<in> set bs \<Longrightarrow> \<exists>m. parentSpacePose ops t w b = Inr m) \<Longrightarrow>
   write_all (writePose ops t) w bs
     = (None, w\<lparr>written := written w @ concat (map (pose_record ops t w) bs)\<rparr>)"
proof (induction bs arbitrary: w)
  case Nil
  then show ?case by simp
next
  case (Cons b bs)
  from Cons.prems obtain m where m: "parentSpacePose ops t w b = Inr m" by auto
  let ?w = "w\<lparr>written := written w @ pose_record ops t w b\<rparr>"
  have "\<And>b'. b' \<in> set bs \<Longrightarrow> \<exists>m. parentSpacePose ops t ?w b' = Inr m"
    using Cons.prems by simp
  from Cons.IH [OF this] m show ?case by (simp add: writePose_eq)
qed

lemma frames_loop_ok:
  "(\<And>fr b. fr \<in> set frs \<Longrightarrow> b \<in> set (bones arm) \<Longrightarrow>
       \<exists>m. parentSpacePose ops t (w\<lparr>frame_current := fr\<rparr>) b = Inr m) \<Longrightarrow>
   write_all (writeFrame ops arm t) w frs
     = (None, w\<lparr>frame_current := last (frame_current w # frs),
                written := written w @ concat (map (\<lambda>fr. concat (map
                   (pose_record ops t (w\<lparr>frame_current := fr\<rparr>)) (bones arm))) frs)\<rparr>)"
proof (induction frs arbitrary: w)
  case Nil
  then show ?case by simp
next
  case (Cons fr frs)
  let ?w1 = "w\<lparr>frame_current := fr\<rparr>"
  let ?w2 = "?w1\<lparr>written := written ?w1 @ concat (map (pose_record ops t ?w1) (bones arm))\<rparr>"
  have 1: "writeFrame ops arm t w fr = (None, ?w2)"
    unfolding writeFrame_def by (rule bones_loop_ok) (use Cons.prems in simp)
  have same: "parentSpacePose ops t (?w2\<lparr>frame_current := fr'\<rparr>) b
                = parentSpacePose ops t (w\<lparr>frame_current := fr'\<rparr>) b" for fr' b
    by (rule parentSpacePose_cong) simp_all
  have rec: "pose_record ops t (?w2\<lparr>frame_current := fr'\<rparr>) b
                = pose_record ops t (w\<lparr>frame_current := fr'\<rparr>) b" for fr' b
    by (simp only: pose_record_def same)
  have ok: "\<exists>m. parentSpacePose ops t (?w2\<lparr>frame_current := fr'\<rparr>) b = Inr m"
    if "fr' \<in> set frs" "b \<in> set (bones arm)" for fr' b
  proof -
    from that Cons.prems [of fr' b]
    have "\<exists>m. parentSpacePose ops t (w\<lparr>frame_current := fr'\<rparr>) b = Inr m" by simp
    then show ?thesis by (simp only: same)
  qed
  note IH = Cons.IH [of ?w2, OF ok, unfolded rec]
  from IH 1 show ?case by simp
qed

lemma concat_product:
  "concat (map (\<lambda>x. concat (map (g x) ys)) xs) = concat (map (\<lambda>p. g (fst p) (snd p)) (List.product xs ys))"
  by (induction xs) (simp_all add: comp_def)


lemma pose_record_cong:
  "action w = action w' \<Longrightarrow> frame_current w = frame_current w' \<Longrightarrow>
   armature_pose_position w = armature_pose_position w' \<Longrightarrow>
   pose_record ops t w b = pose_record ops t w' b"
  using parentSpacePose_cong [of w w' ops t b] by (simp add: pose_record_def)

lemma writeAnimation_header:
  assumes "s = py_int (fst (frame_range anim))" and "e = py_int (snd (frame_range anim))"
    and "0 \<le> e - s + 1" and "e - s + 1 < 2 ^ 32"
    and "int (length (action_name anim)) < 2 ^ 32"
  shows "writeAnimation ops w arm anim t =
     (if \<forall>c \<in> set (action_name anim). c < 128
      then write_all (writeFrame ops arm t)
             (w\<lparr>action := Some anim,
                written := written w @ [Pack_I (e - s + 1),
                   Pack_I (int (length (action_name anim))), Encoded (action_name anim)]\<rparr>)
             [s..e]
      else (Some UnicodeEncodeError,
            w\<lparr>action := Some anim,
               written := written w @ [Pack_I (e - s + 1),
                  Pack_I (int (length (action_name anim)))]\<rparr>))"
  using assms
  by (simp add: writeAnimation_def Let_def on_file_def writeUint32_wb writeString_wb)

lemma writeAnimation_ok:
  assumes s: "s = py_int (fst (frame_range anim))" and e: "e = py_int (snd (frame_range anim))"
    and count: "0 \<le> e - s + 1" "e - s + 1 < 2 ^ 32"
    and name: "\<forall>c \<in> set (action_name anim). c < 128"
    and len: "int (length (action_name anim)) < 2 ^ 32"
    and inv: "\<And>fr b. fr \<in> set [s..e] \<Longrightarrow> b \<in> set (bones arm) \<Longrightarrow>
        \<exists>m. parentSpacePose ops t (w\<lparr>action := Some anim, frame_current := fr\<rparr>) b = Inr m"
  shows "writeAnimation ops w arm anim t =
     (None, w\<lparr>frame_current := last (frame_current w # [s..e]), action := Some anim,
              written := written w @ [Pack_I (e - s + 1),
                  Pack_I (int (length (action_name anim))), Encoded (action_name anim)]
                @ concat (map (\<lambda>p. pose_record ops t
                                 (w\<lparr>action := Some anim, frame_current := fst p\<rparr>) (snd p))
                           (List.product [s..e] (bones arm)))\<rparr>)"
proof -
  let ?hdr = "[Pack_I (e - s + 1), Pack_I (int (length (action_name anim))),
               Encoded (action_name anim)]"
  let ?w3 = "w\<lparr>action := Some anim, written := written w @ ?hdr\<rparr>"
  let ?at = "\<lambda>fr. w\<lparr>action := Some anim, frame_current := fr\<rparr>"
  have same: "parentSpacePose ops t (?w3\<lparr>frame_current := fr\<rparr>) b = parentSpacePose ops t (?at fr) b"
    for fr b
    by (rule parentSpacePose_cong) simp_all
  have rec: "pose_record ops t (?w3\<lparr>frame_current := fr\<rparr>) b = pose_record ops t (?at fr) b"
    for fr b
    by (rule pose_record_cong) simp_all
  have ok: "\<exists>m. parentSpacePose ops t (?w3\<lparr>frame_current := fr\<rparr>) b = Inr m"
    if "fr \<in> set [s..e]" "b \<in> set (bones arm)" for fr b
    using inv [OF that] by (simp only: same)
  note loop = frames_loop_ok [of "[s..e]" arm ops t ?w3, OF ok, unfolded rec]
  have prod: "concat (map (\<lambda>fr. concat (map (pose_record ops t (?at fr)) (bones arm))) [s..e])
      = concat (map (\<lambda>p. pose_record ops t (?at (fst p)) (snd p)) (List.product [s..e] (bones arm)))"
    by (rule concat_product)
  have "writeAnimation ops w arm anim t = write_all (writeFrame ops arm t) ?w3 [s..e]"
    using writeAnimation_header [OF s e count len, of ops w arm t] name by simp
  with loop prod show ?thesis by simp
qed

lemma write_all_extends:
  assumes "\<And>w x. \<exists>rest. written (snd (step w x)) = written w @ rest"
  shows "\<exists>rest. written (snd (write_all step w xs)) = written w @ rest"
proof (induction xs arbitrary: w)
  case Nil
  then show ?case by simp
next
  case (Cons x xs)
  obtain r w1 where 1: "step w x = (r, w1)" by (cases "step w x")
  from assms [of w x] 1 obtain rest1 where r1: "written w1 = written w @ rest1" by auto
  show ?case
  proof (cases r)
    case None
    from Cons.IH [of w1] obtain rest2
      where "written (snd (write_all step w1 xs)) = written w1 @ rest2" by blast
    with None 1 r1 show ?thesis by simp
  next
    case (Some e)
    with 1 r1 show ?thesis by simp
  qed
qed

lemma writePose_extends: "\<exists>rest. written (snd (writePose ops t w b)) = written w @ rest"
  by (simp add: writePose_eq split: sum.splits)

lemma writeFrame_extends: "\<exists>rest. written (snd (writeFrame ops arm t w fr)) = written w @ rest"
  using write_all_extends [of "writePose ops t" "w\<lparr>frame_current := fr\<rparr>" "bones arm",
      OF writePose_extends]
  by (simp add: writeFrame_def)

lemma pose_record_length:
  "parentSpacePose ops t w b = Inr m \<Longrightarrow> length (pose_record ops t w b) = 10"
  by (simp add: pose_record_def pose_floats_def)


lemma parentSpacePose_invertible:
  assumes "\<forall>p. parent b = Some p \<longrightarrow>
             inverted ops (bone_matrix ops (Some anim) fr (armature_pose_position w) p) \<noteq> None"
  shows "\<exists>m. parentSpacePose ops t (w\<lparr>action := Some anim, frame_current := fr\<rparr>) b = Inr m
     \<and> (\<forall>p. parent b = Some p \<longrightarrow>
           (\<exists>i. inverted ops (bone_matrix ops (Some anim) fr (armature_pose_position w) p) = Some i
              \<and> m = matmul ops i
                   (bone_matrix ops (Some anim) fr (armature_pose_position w) (bone_name b))))
     \<and> (parent b = None \<longrightarrow>
           m = matmul ops t
                 (bone_matrix ops (Some anim) fr (armature_pose_position w) (bone_name b)))"
  using assms
  by (cases "parent b") (auto simp: parentSpacePose_def pose_bone_matrix_def)

lemma writeAnimation_run:
  assumes count: "0 \<le> endFrame anim - startFrame anim + 1"
      "endFrame anim - startFrame anim + 1 < 2 ^ 32"
    and name: "\<forall>c \<in> set (action_name anim). c < 128"
    and len: "int (length (action_name anim)) < 2 ^ 32"
    and inv: "\<forall>fr \<in> set [startFrame anim..endFrame anim]. \<forall>b \<in> set (bones arm).
        \<forall>p. parent b = Some p \<longrightarrow>
          inverted ops (bone_matrix ops (Some anim) fr (armature_pose_position w) p) \<noteq> None"
  shows "writeAnimation ops w arm anim t =
     (None, w\<lparr>frame_current := last (frame_current w # [startFrame anim..endFrame anim]),
              action := Some anim,
              written := written w @ [Pack_I (endFrame anim - startFrame anim + 1),
                  Pack_I (int (length (action_name anim))), Encoded (action_name anim)]
                @ concat (map (\<lambda>p. pose_record ops t
                                 (w\<lparr>action := Some anim, frame_current := fst p\<rparr>) (snd p))
                           (List.product [startFrame anim..endFrame anim] (bones arm)))\<rparr>)"
proof (rule writeAnimation_ok)
  show "startFrame anim = py_int (fst (frame_range anim))" by (simp add: startFrame_def)
  show "endFrame anim = py_int (snd (frame_range anim))" by (simp add: endFrame_def)
  show "0 \<le> endFrame anim - startFrame anim + 1" by (rule count)
  show "endFrame anim - startFrame anim + 1 < 2 ^ 32" by (rule count)
  show "\<forall>c \<in> set (action_name anim). c < 128" by (rule name)
  show "int (length (action_name anim)) < 2 ^ 32" by (rule len)
  fix fr b
  assume "fr \<in> set [startFrame anim..endFrame anim]" "b \<in> set (bones arm)"
  with inv have "\<forall>p. parent b = Some p \<longrightarrow>
        inverted ops (bone_matrix ops (Some anim) fr (armature_pose_position w) p) \<noteq> None"
    by blast
  from parentSpacePose_invertible [OF this]
  show "\<exists>m. parentSpacePose ops t (w\<lparr>action := Some anim, frame_current := fr\<rparr>) b = Inr m"
    by blast
qed

text \<open>
  C7. When the frame count and the name can be written and every parent's pose matrix is
  invertible, writeAnimation does not raise, and after the three header items it appends
  one record per (frame, bone), frames outermost. The record is the ten floats of the
  decomposition of a matrix \<open>m\<close>: translation x, y, z, then the quaternion w, x, y, z,
  then scale x, y, z; where \<open>m\<close> is \<open>inverse(parent.matrix) @ bone.matrix\<close> for a bone
  with a parent and \<open>transform @ bone.matrix\<close> for a root, the matrices being those of
  the pose at that frame under the action.
\<close>

theorem writeAnimation_pose_decomposition:
  assumes count: "0 \<le> endFrame anim - startFrame anim + 1"
      "endFrame anim - startFrame anim + 1 < 2 ^ 32"
    and name: "\<forall>c \<in> set (action_name anim). c < 128"
    and len: "int (length (action_name anim)) < 2 ^ 32"
    and inv: "\<forall>fr \<in> set [startFrame anim..endFrame anim]. \<forall>b \<in> set (bones arm).
        \<forall>p. parent b = Some p \<longrightarrow>
          inverted ops (bone_matrix ops (Some anim) fr (armature_pose_position w) p) \<noteq> None"
  shows "\<exists>w' rec. writeAnimation ops w arm anim t = (None, w')
     \<and> written w' = written w @ [Pack_I (endFrame anim - startFrame anim + 1),
           Pack_I (int (length (action_name anim))), Encoded (action_name anim)]
         @ concat (map (\<lambda>p. rec (fst p) (snd p))
                     (List.product [startFrame anim..endFrame anim] (bones arm)))
     \<and> (\<forall>fr \<in> set [startFrame anim..endFrame anim]. \<forall>b \<in> set (bones arm). \<exists>m.
           rec fr b = map Pack_f
             [vx (to_translation ops m), vy (to_translation ops m), vz (to_translation ops m),
              qw (to_quaternion ops m), qx (to_quaternion ops m), qy (to_quaternion ops m),
              qz (to_quaternion ops m),
              vx (to_scale ops m), vy (to_scale ops m), vz (to_scale ops m)]
           \<and> (\<forall>p. parent b = Some p \<longrightarrow>
                 (\<exists>i. inverted ops (bone_matrix ops (Some anim) fr (armature_pose_position w) p)
                        = Some i
                    \<and> m = matmul ops i
                         (bone_matrix ops (Some anim) fr (armature_pose_position w) (bone_name b))))
           \<and> (parent b = None \<longrightarrow>
                 m = matmul ops t
                       (bone_matrix ops (Some anim) fr (armature_pose_position w) (bone_name b))))"
proof -
  let ?rec = "\<lambda>fr b. pose_record ops t (w\<lparr>action := Some anim, frame_current := fr\<rparr>) b"
  note run = writeAnimation_run [OF count name len inv, of t]
  have each: "\<exists>m.
           ?rec fr b = map Pack_f
             [vx (to_translation ops m), vy (to_translation ops m), vz (to_translation ops m),
              qw (to_quaternion ops m), qx (to_quaternion ops m), qy (to_quaternion ops m),
              qz (to_quaternion ops m),
              vx (to_scale ops m), vy (to_scale ops m), vz (to_scale ops m)]
           \<and> (\<forall>p. parent b = Some p \<longrightarrow>
                 (\<exists>i. inverted ops (bone_matrix ops (Some anim) fr (armature_pose_position w) p)
                        = Some i
                    \<and> m = matmul ops i
                         (bone_matrix ops (Some anim) fr (armature_pose_position w) (bone_name b))))
           \<and> (parent b = None \<longrightarrow>
                 m = matmul ops t
                       (bone_matrix ops (Some anim) fr (armature_pose_position w) (bone_name b)))"
    if "fr \<in> set [startFrame anim..endFrame anim]" "b \<in> set (bones arm)" for fr b
  proof -
    from inv that have "\<forall>p. parent b = Some p \<longrightarrow>
        inverted ops (bone_matrix ops (Some anim) fr (armature_pose_position w) p) \<noteq> None"
      by blast
    from parentSpacePose_invertible [OF this, of t] obtain m
      where m: "parentSpacePose ops t (w\<lparr>action := Some anim, frame_current := fr\<rparr>) b = Inr m"
        and par: "\<forall>p. parent b = Some p \<longrightarrow>
           (\<exists>i. inverted ops (bone_matrix ops (Some anim) fr (armature_pose_position w) p) = Some i
              \<and> m = matmul ops i
                   (bone_matrix ops (Some anim) fr (armature_pose_position w) (bone_name b)))"
        and root: "parent b = None \<longrightarrow>
           m = matmul ops t
                 (bone_matrix ops (Some anim) fr (armature_pose_position w) (bone_name b))"
      by (elim exE conjE) (rule that)
    from m have rec:  "?rec fr b = map Pack_f
             [vx (to_translation ops m), vy (to_translation ops m), vz (to_translation ops m),
              qw (to_quaternion ops m), qx (to_quaternion ops m), qy (to_quaternion ops m),
              qz (to_quaternion ops m),
              vx (to_scale ops m), vy (to_scale ops m), vz (to_scale ops m)]"
      by (simp add: pose_record_def pose_floats_def)
    show ?thesis by (rule exI [of _ m]) (intro conjI rec par root)
  qed
  show ?thesis
  proof (intro exI conjI)
    show "writeAnimation ops w arm anim t =
       (None, w\<lparr>frame_current := last (frame_current w # [startFrame anim..endFrame anim]),
              action := Some anim,
              written := written w @ [Pack_I (endFrame anim - startFrame anim + 1),
                  Pack_I (int (length (action_name anim))), Encoded (action_name anim)]
                @ concat (map (\<lambda>p. ?rec (fst p) (snd p))
                           (List.product [startFrame anim..endFrame anim] (bones arm)))\<rparr>)"
      by (rule run)
    show "written (w\<lparr>frame_current := last (frame_current w # [startFrame anim..endFrame anim]),
              action := Some anim,
              written := written w @ [Pack_I (endFrame anim - startFrame anim + 1),
                  Pack_I (int (length (action_name anim))), Encoded (action_name anim)]
                @ concat (map (\<lambda>p. ?rec (fst p) (snd p))
                           (List.product [startFrame anim..endFrame anim] (bones arm)))\<rparr>)
        = written w @ [Pack_I (endFrame anim - startFrame anim + 1),
           Pack_I (int (length (action_name anim))), Encoded (action_name anim)]
         @ concat (map (\<lambda>p. ?rec (fst p) (snd p))
                     (List.product [startFrame anim..endFrame anim] (bones arm)))"
      by simp
    show "\<forall>fr \<in> set [startFrame anim..endFrame anim]. \<forall>b \<in> set (bones arm). \<exists>m.
           ?rec fr b = map Pack_f
             [vx (to_translation ops m), vy (to_translation ops m), vz (to_translation ops m),
              qw (to_quaternion ops m), qx (to_quaternion ops m), qy (to_quaternion ops m),
              qz (to_quaternion ops m),
              vx (to_scale ops m), vy (to_scale ops m), vz (to_scale ops m)]
           \<and> (\<forall>p. parent b = Some p \<longrightarrow>
                 (\<exists>i. inverted ops (bone_matrix ops (Some anim) fr (armature_pose_position w) p)
                        = Some i
                    \<and> m = matmul ops i
                         (bone_matrix ops (Some anim) fr (armature_pose_position w) (bone_name b))))
           \<and> (parent b = None \<longrightarrow>
                 m = matmul ops t
                       (bone_matrix ops (Some anim) fr (armature_pose_position w) (bone_name b)))"
      by (intro ballI each)
  qed
qed


lemma sample_frames [simp]:
  "startFrame sample_action = 2" "endFrame sample_action = 3"
  "startFrame accent_action = 2" "endFrame accent_action = 3"
  by (simp_all add: startFrame_def endFrame_def py_int_def sample_action_def accent_action_def)

lemma sample_invertible:
  "\<forall>fr \<in> set [startFrame sample_action..endFrame sample_action].
     \<forall>b \<in> set (bones sample_armature). \<forall>p. parent b = Some p \<longrightarrow>
       inverted sample_bpy (bone_matrix sample_bpy (Some sample_action) fr
          (armature_pose_position (world0\<lparr>armature_pose_position := POSE\<rparr>)) p) \<noteq> None"
  by (simp add: sample_bpy_def sim_inverted_def)

lemma sample_run:
  "writeAnimation sample_bpy (world0\<lparr>armature_pose_position := POSE\<rparr>) sample_armature
      sample_action sim_identity
   = (None, world0\<lparr>frame_current := 3, action := Some sample_action,
                   armature_pose_position := POSE,
                   written := [Pack_I 2, Pack_I 3, Encoded [114, 117, 110]] @ map Pack_f
                     [2, 0, 0, 1, 0, 0, 0, 1, 1, 1,
                      0, 0, 0, 1, 0, 0, 0, 2, 2, 2,
                      0, 0, 0, 1, 0, 0, 0, 1 / 2, 1 / 2, 1 / 2,
                      3, 0, 0, 1, 0, 0, 0, 1, 1, 1,
                      0, 0, 0, 1, 0, 0, 0, 2, 2, 2,
                      0, 0, 0, 1, 0, 0, 0, 1 / 2, 1 / 2, 1 / 2]\<rparr>)"
  by (simp add: writeAnimation_def writeFrame_def writePose_def parentSpacePose_def
      pose_bone_matrix_def pose_floats_def on_file_def Let_def py_int_def sample_bpy_def
      sample_armature_def sample_action_def sim_identity_def sim_inverted_def sim_apply_def
      world0_def writeUint32_wb writeString_wb)

theorem writeAnimation_pose_decomposition_witness:
  "0 \<le> endFrame sample_action - startFrame sample_action + 1
   \<and> endFrame sample_action - startFrame sample_action + 1 < 2 ^ 32
   \<and> int (length (action_name sample_action)) < 2 ^ 32
   \<and> writeAnimation sample_bpy (world0\<lparr>armature_pose_position := POSE\<rparr>) sample_armature
        sample_action sim_identity
      = (None, world0\<lparr>frame_current := 3, action := Some sample_action,
                   armature_pose_position := POSE,
                   written := [Pack_I 2, Pack_I 3, Encoded [114, 117, 110]] @ map Pack_f
                     [2, 0, 0, 1, 0, 0, 0, 1, 1, 1,
                      0, 0, 0, 1, 0, 0, 0, 2, 2, 2,
                      0, 0, 0, 1, 0, 0, 0, 1 / 2, 1 / 2, 1 / 2,
                      3, 0, 0, 1, 0, 0, 0, 1, 1, 1,
                      0, 0, 0, 1, 0, 0, 0, 2, 2, 2,
                      0, 0, 0, 1, 0, 0, 0, 1 / 2, 1 / 2, 1 / 2]\<rparr>)"
proof -
  have h1: "0 \<le> endFrame sample_action - startFrame sample_action + 1" by simp
  have h2: "endFrame sample_action - startFrame sample_action + 1 < 2 ^ 32" by simp
  have h3: "\<forall>c \<in> set (action_name sample_action). c < 128" by (simp add: sample_action_def)
  have h4: "int (length (action_name sample_action)) < 2 ^ 32" by (simp add: sample_action_def)
  from writeAnimation_pose_decomposition [OF h1 h2 h3 h4 sample_invertible, of sim_identity]
  obtain w' where "writeAnimation sample_bpy (world0\<lparr>armature_pose_position := POSE\<rparr>)
      sample_armature sample_action sim_identity = (None, w')"
    by (elim exE conjE)
  with sample_run h1 h2 h3 h4 show ?thesis by simp
qed

text \<open>
  C9. Under the same conditions the first item written is the frame count
  \<open>endFrame - startFrame + 1\<close>, and the pose stream holds exactly frame count times bone
  count records of ten floats each; record \<open>k\<close> is the pose of bone \<open>k mod boneCount\<close>
  at frame \<open>startFrame + k div boneCount\<close>: frame-major, frames ascending.
\<close>

theorem writeAnimation_frame_major:
  assumes count: "0 \<le> endFrame anim - startFrame anim + 1"
      "endFrame anim - startFrame anim + 1 < 2 ^ 32"
    and name: "\<forall>c \<in> set (action_name anim). c < 128"
    and len: "int (length (action_name anim)) < 2 ^ 32"
    and inv: "\<forall>fr \<in> set [startFrame anim..endFrame anim]. \<forall>b \<in> set (bones arm).
        \<forall>p. parent b = Some p \<longrightarrow>
          inverted ops (bone_matrix ops (Some anim) fr (armature_pose_position w) p) \<noteq> None"
  shows "\<exists>w' stream. writeAnimation ops w arm anim t = (None, w')
     \<and> written w' = written w @ [Pack_I (endFrame anim - startFrame anim + 1),
           Pack_I (int (length (action_name anim))), Encoded (action_name anim)]
         @ concat stream
     \<and> int (length stream) = (endFrame anim - startFrame anim + 1) * int (length (bones arm))
     \<and> (\<forall>k < length stream.
           length (stream ! k) = 10
           \<and> stream ! k = pose_record ops t
               (w\<lparr>action := Some anim,
                  frame_current := startFrame anim + int (k div length (bones arm))\<rparr>)
               (bones arm ! (k mod length (bones arm))))"
proof -
  let ?frs = "[startFrame anim..endFrame anim]"
  let ?bs = "bones arm"
  let ?rec = "\<lambda>fr b. pose_record ops t (w\<lparr>action := Some anim, frame_current := fr\<rparr>) b"
  let ?stream = "map (\<lambda>p. ?rec (fst p) (snd p)) (List.product ?frs ?bs)"
  note run = writeAnimation_run [OF count name len inv, of t]
  have n: "int (length ?stream)
      = (endFrame anim - startFrame anim + 1) * int (length ?bs)"
    using count(1) by simp
  have each: "length (?stream ! k) = 10
           \<and> ?stream ! k = ?rec (startFrame anim + int (k div length ?bs))
                               (?bs ! (k mod length ?bs))"
    if k: "k < length ?stream" for k
  proof -
    from k have k': "k < length ?frs * length ?bs" by simp
    then have pos: "0 < length ?bs" by (cases "length ?bs") simp_all
    from k' have d: "k div length ?bs < length ?frs" by (rule less_mult_imp_div_less)
    then have fr: "?frs ! (k div length ?bs) = startFrame anim + int (k div length ?bs)"
      by (intro nth_upto) simp
    from pos have m: "k mod length ?bs < length ?bs" by simp
    from product_nth [OF k'] fr
    have p: "List.product ?frs ?bs ! k
              = (startFrame anim + int (k div length ?bs), ?bs ! (k mod length ?bs))"
      by simp
    from d fr have "startFrame anim + int (k div length ?bs) \<in> set ?frs"
      by (metis nth_mem)
    moreover from m have "?bs ! (k mod length ?bs) \<in> set ?bs" by simp
    ultimately have "\<forall>q. parent (?bs ! (k mod length ?bs)) = Some q \<longrightarrow>
        inverted ops (bone_matrix ops (Some anim) (startFrame anim + int (k div length ?bs))
          (armature_pose_position w) q) \<noteq> None"
      using inv by blast
    from parentSpacePose_invertible [OF this, of t] obtain m'
      where "parentSpacePose ops t
               (w\<lparr>action := Some anim,
                  frame_current := startFrame anim + int (k div length ?bs)\<rparr>)
               (?bs ! (k mod length ?bs)) = Inr m'"
      by (elim exE conjE)
    then have "length (?rec (startFrame anim + int (k div length ?bs))
                            (?bs ! (k mod length ?bs))) = 10"
      by (rule pose_record_length)
    with k' p show ?thesis by simp
  qed
  show ?thesis
  proof (intro exI conjI)
    show "writeAnimation ops w arm anim t =
       (None, w\<lparr>frame_current := last (frame_current w # ?frs),
              action := Some anim,
              written := written w @ [Pack_I (endFrame anim - startFrame anim + 1),
                  Pack_I (int (length (action_name anim))), Encoded (action_name anim)]
                @ concat ?stream\<rparr>)"
      using run by simp
    show "written (w\<lparr>frame_current := last (frame_current w # ?frs),
              action := Some anim,
              written := written w @ [Pack_I (endFrame anim - startFrame anim + 1),
                  Pack_I (int (length (action_name anim))), Encoded (action_name anim)]
                @ concat ?stream\<rparr>)
        = written w @ [Pack_I (endFrame anim - startFrame anim + 1),
           Pack_I (int (length (action_name anim))), Encoded (action_name anim)]
         @ concat ?stream"
      by simp
    show "int (length ?stream)
      = (endFrame anim - startFrame anim + 1) * int (length ?bs)"
      by (rule n)
    show "\<forall>k < length ?stream.
           length (?stream ! k) = 10
           \<and> ?stream ! k = ?rec (startFrame anim + int (k div length ?bs))
                               (?bs ! (k mod length ?bs))"
      using each by blast
  qed
qed

lemma sample_names:
  "action_name sample_action = [114, 117, 110]" "action_name accent_action = [233]"
  by (simp_all add: sample_action_def accent_action_def)

theorem writeAnimation_frame_major_witness:
  "0 \<le> endFrame sample_action - startFrame sample_action + 1
   \<and> endFrame sample_action - startFrame sample_action + 1 < 2 ^ 32
   \<and> int (length (action_name sample_action)) < 2 ^ 32
   \<and> (\<exists>w' stream. writeAnimation sample_bpy (world0\<lparr>armature_pose_position := POSE\<rparr>)
          sample_armature sample_action sim_identity = (None, w')
        \<and> written w' = [Pack_I 2, Pack_I 3, Encoded [114, 117, 110]] @ concat stream
        \<and> length stream = 6
        \<and> stream ! 4 = map Pack_f [0, 0, 0, 1, 0, 0, 0, 2, 2, 2])"
proof -
  let ?w = "world0\<lparr>armature_pose_position := POSE\<rparr>"
  have h1: "0 \<le> endFrame sample_action - startFrame sample_action + 1" by simp
  have h2: "endFrame sample_action - startFrame sample_action + 1 < 2 ^ 32" by simp
  have h3: "\<forall>c \<in> set (action_name sample_action). c < 128" by (simp add: sample_action_def)
  have h4: "int (length (action_name sample_action)) < 2 ^ 32" by (simp add: sample_action_def)
  from writeAnimation_frame_major [OF h1 h2 h3 h4 sample_invertible, of sim_identity]
  obtain w' stream
    where run: "writeAnimation sample_bpy ?w sample_armature sample_action sim_identity = (None, w')"
      and out: "written w' = written ?w @ [Pack_I (endFrame sample_action - startFrame sample_action + 1),
           Pack_I (int (length (action_name sample_action))), Encoded (action_name sample_action)]
         @ concat stream"
      and n: "int (length stream)
          = (endFrame sample_action - startFrame sample_action + 1) * int (length (bones sample_armature))"
      and each: "\<forall>k < length stream. length (stream ! k) = 10
           \<and> stream ! k = pose_record sample_bpy sim_identity
               (?w\<lparr>action := Some sample_action,
                  frame_current := startFrame sample_action + int (k div length (bones sample_armature))\<rparr>)
               (bones sample_armature ! (k mod length (bones sample_armature)))"
    by (elim exE conjE)
  from n have len: "length stream = 6" by (simp add: sample_armature_def)
  with each have "stream ! 4 = pose_record sample_bpy sim_identity
               (?w\<lparr>action := Some sample_action,
                  frame_current := startFrame sample_action + int (4 div length (bones sample_armature))\<rparr>)
               (bones sample_armature ! (4 mod length (bones sample_armature)))"
    by simp
  then have r4: "stream ! 4 = map Pack_f [0, 0, 0, 1, 0, 0, 0, 2, 2, 2]"
    by (simp add: pose_record_def parentSpacePose_def pose_bone_matrix_def pose_floats_def
        sample_bpy_def sample_armature_def sim_inverted_def sim_apply_def)
  from out have out': "written w' = [Pack_I 2, Pack_I 3, Encoded [114, 117, 110]] @ concat stream"
    by (simp add: world0_def sample_names)
  from run out' len r4 h1 h2 h3 h4 show ?thesis by blast
qed

text \<open>
  C10. When the frame count and the name length can be written, the second item written
  is the number of code points of the action's name. For a name of ASCII characters the
  third item is the name's ASCII encoding, whatever happens afterwards. For a name with a
  character that is not ASCII, writeAnimation raises UnicodeEncodeError with the frame
  count and the name length already written, and nothing after them.
\<close>

theorem writeAnimation_name_bytes:
  assumes count: "0 \<le> endFrame anim - startFrame anim + 1"
      "endFrame anim - startFrame anim + 1 < 2 ^ 32"
    and len: "int (length (action_name anim)) < 2 ^ 32"
  shows "((\<forall>c \<in> set (action_name anim). c < 128) \<longrightarrow>
           (\<exists>r w' rest. writeAnimation ops w arm anim t = (r, w')
              \<and> written w' = written w @ [Pack_I (endFrame anim - startFrame anim + 1),
                    Pack_I (int (length (action_name anim))), Encoded (action_name anim)] @ rest))
       \<and> (\<not> (\<forall>c \<in> set (action_name anim). c < 128) \<longrightarrow>
           writeAnimation ops w arm anim t
             = (Some UnicodeEncodeError,
                w\<lparr>action := Some anim,
                   written := written w @ [Pack_I (endFrame anim - startFrame anim + 1),
                      Pack_I (int (length (action_name anim)))]\<rparr>))"
proof -
  let ?hdr = "[Pack_I (endFrame anim - startFrame anim + 1),
               Pack_I (int (length (action_name anim))), Encoded (action_name anim)]"
  let ?w3 = "w\<lparr>action := Some anim, written := written w @ ?hdr\<rparr>"
  have s: "startFrame anim = py_int (fst (frame_range anim))" by (simp add: startFrame_def)
  have e: "endFrame anim = py_int (snd (frame_range anim))" by (simp add: endFrame_def)
  note hdr = writeAnimation_header [OF s e count len, of ops w arm t]
  have ascii: "\<exists>r w' rest. writeAnimation ops w arm anim t = (r, w')
              \<and> written w' = written w @ ?hdr @ rest"
    if a: "\<forall>c \<in> set (action_name anim). c < 128"
  proof -
    let ?res = "write_all (writeFrame ops arm t) ?w3 [startFrame anim..endFrame anim]"
    from hdr a have run: "writeAnimation ops w arm anim t = ?res" by simp
    from write_all_extends [of "writeFrame ops arm t" ?w3 "[startFrame anim..endFrame anim]",
        OF writeFrame_extends]
    obtain rest where "written (snd ?res) = written ?w3 @ rest" by blast
    then have "written (snd ?res) = written w @ ?hdr @ rest" by simp
    with run show ?thesis by (intro exI [of _ "fst ?res"] exI [of _ "snd ?res"] exI [of _ rest]) simp
  qed
  from hdr ascii show ?thesis by auto
qed

lemma accent_run:
  "writeAnimation sample_bpy (world0\<lparr>armature_pose_position := POSE\<rparr>) sample_armature
      accent_action sim_identity
   = (Some UnicodeEncodeError,
      world0\<lparr>action := Some accent_action, armature_pose_position := POSE,
             written := [Pack_I 2, Pack_I 1]\<rparr>)"
  by (simp add: writeAnimation_def on_file_def Let_def py_int_def accent_action_def
      world0_def writeUint32_wb writeString_wb)

lemma sample_rows_4x4:
  "\<forall>m. length (rows sample_bpy m) = 4 \<and> (\<forall>r \<in> set (rows sample_bpy m). length r = 4)"
  by (simp add: sample_bpy_def sim_rows_def)

theorem writeJoints_spec_witness:
  "distinct (map bone_name (bones sample_armature))
   \<and> length (bones sample_armature) \<le> 256
   \<and> writeJoints sample_bpy [] sample_armature sim_identity
      = (None,
         Pack_B 0 # map Pack_f [1, 0, 0, 0,  0, 1, 0, 0,  0, 0, 1, 0,  0, 0, 0, 1]
         @ Pack_B 0 # map Pack_f [1 / 2, 0, 0, 0,  0, 1 / 2, 0, - 1 / 2,  0, 0, 1 / 2, 0,  0, 0, 0, 1]
         @ Pack_B 1 # map Pack_f [1, 0, 0, 0,  0, 1, 0, 0,  0, 0, 1, 0,  0, 0, 0, 1])"
proof -
  have h1: "distinct (map bone_name (bones sample_armature))"
    by (simp add: sample_armature_def)
  have h2: "\<forall>b \<in> set (bones sample_armature). \<forall>p. parent b = Some p \<longrightarrow>
         p \<in> set (map bone_name (bones sample_armature))"
    by (simp add: sample_armature_def)
  have h3: "length (bones sample_armature) \<le> 256" by (simp add: sample_armature_def)
  have h4: "\<forall>b \<in> set (bones sample_armature).
         inverted sample_bpy (matmul sample_bpy sim_identity (matrix_local b)) \<noteq> None"
    by (simp add: sample_armature_def sample_bpy_def sim_inverted_def sim_identity_def)
  have run: "writeJoints sample_bpy [] sample_armature sim_identity
      = (None,
         Pack_B 0 # map Pack_f [1, 0, 0, 0,  0, 1, 0, 0,  0, 0, 1, 0,  0, 0, 0, 1]
         @ Pack_B 0 # map Pack_f [1 / 2, 0, 0, 0,  0, 1 / 2, 0, - 1 / 2,  0, 0, 1 / 2, 0,  0, 0, 0, 1]
         @ Pack_B 1 # map Pack_f [1, 0, 0, 0,  0, 1, 0, 0,  0, 0, 1, 0,  0, 0, 0, 1])"
    by (simp add: writeJoints_def writeJoint_def writeUint8_wb bones_find_def pos_def
        sample_armature_def sample_bpy_def sim_inverted_def sim_identity_def sim_apply_def
        sim_rows_def)
  from writeJoints_spec [OF h1 h2 h3 h4 sample_rows_4x4, of "[]"]
  obtain recs where "writeJoints sample_bpy [] sample_armature sim_identity = (None, [] @ concat recs)"
    by (elim exE conjE)
  with h1 h2 h3 h4 run show ?thesis by simp
qed

section \<open>The skeleton export and the session state\<close>

lemma andThen_assoc:
  "andThen (andThen r k1) k2 = andThen r (\<lambda>s. andThen (k1 s) k2)"
  by (cases r) (simp add: andThen_def split: option.splits)

lemma andThen_cases:
  obtains (ok) s where "r = (None, s)" "andThen r k = k s"
        | (raised) e s where "r = (Some e, s)" "andThen r k = (Some e, s)"
  by (cases r; cases "fst r") auto

lemma andThen_pose:
  assumes "armature_pose_position (snd r) = c"
    and "\<And>s. armature_pose_position s = c \<Longrightarrow> armature_pose_position (snd (k s)) = c"
  shows "armature_pose_position (snd (andThen r k)) = c"
  using assms by (cases r k rule: andThen_cases) auto

lemma on_file_pose [simp]:
  "armature_pose_position (snd (on_file k w)) = armature_pose_position w"
  by (simp add: on_file_def Let_def)

lemma write_all_pose:
  assumes "\<And>w x. armature_pose_position (snd (step w x)) = armature_pose_position w"
  shows "armature_pose_position (snd (write_all step w xs)) = armature_pose_position w"
proof (induction xs arbitrary: w)
  case Nil
  then show ?case by simp
next
  case (Cons x xs)
  have "armature_pose_position (snd (andThen (step w x) (\<lambda>w'. write_all step w' xs)))
      = armature_pose_position w"
    by (rule andThen_pose) (simp_all add: assms Cons.IH)
  then show ?case by simp
qed

lemma writePose_pose:
  "armature_pose_position (snd (writePose ops t w b)) = armature_pose_position w"
  by (simp add: writePose_eq split: sum.splits)

lemma writeFrame_pose:
  "armature_pose_position (snd (writeFrame ops arm t w fr)) = armature_pose_position w"
  using write_all_pose [of "writePose ops t" "w\<lparr>frame_current := fr\<rparr>" "bones arm",
      OF writePose_pose]
  by (simp add: writeFrame_def)

lemma writeAnimation_pose:
  "armature_pose_position (snd (writeAnimation ops w arm anim t)) = armature_pose_position w"
  unfolding writeAnimation_def Let_def
  by (intro andThen_pose) (simp_all add: write_all_pose [OF writeFrame_pose])

lemma export_animation_pose:
  "armature_pose_position (snd (export_animation ops scene arm w anim)) = armature_pose_position w"
  by (simp add: export_animation_def writeAnimation_pose split: sum.splits)

text \<open>The statements of the operator between \<open>open\<close> and the three restoring lines.\<close>

lemma skeleton_body_pose:
  "armature_pose_position w1 = POSE \<Longrightarrow>
   armature_pose_position (snd (
     andThen (on_file (\<lambda>f. writeUint8 f (int (length (bones arm)))) w1)
       (\<lambda>w. andThen
              (case getAxisMappingMatrix ops scene of
                 Inl e \<Rightarrow> (Some e, w)
               | Inr t \<Rightarrow> on_file (\<lambda>f. writeJoints ops f arm t) w)
       (\<lambda>w. andThen (on_file (\<lambda>f. writeUint32 f (int (length (actions scene)))) w)
       (\<lambda>w. write_all (export_animation ops scene arm) w (actions scene)))))) = POSE"
  by (intro andThen_pose)
     (simp_all add: write_all_pose [OF export_animation_pose] split: sum.splits)

lemma skeleton_execute_split:
  assumes arm: "getSelectedArmature (selected_objects scene) = Some arm"
    and anim: "has_animation_data arm" and path: "skeletonPath_writable scene"
  shows "ExportSkeletonOperator_execute ops scene w =
     andThen
       (andThen (on_file (\<lambda>f. writeUint8 f (int (length (bones arm))))
                   (w\<lparr>armature_pose_position := POSE, created := True, written := []\<rparr>))
         (\<lambda>w. andThen
              (case getAxisMappingMatrix ops scene of
                 Inl e \<Rightarrow> (Some e, w)
               | Inr t \<Rightarrow> on_file (\<lambda>f. writeJoints ops f arm t) w)
         (\<lambda>w. andThen (on_file (\<lambda>f. writeUint32 f (int (length (actions scene)))) w)
         (\<lambda>w. write_all (export_animation ops scene arm) w (actions scene)))))
       (\<lambda>w4. (None, w4\<lparr>frame_current := frame_current w, action := action w,
                        armature_pose_position := armature_pose_position w\<rparr>))"
  using arm anim path
  by (simp add: ExportSkeletonOperator_execute_def Let_def setArmaturePosition_def andThen_assoc)

text \<open>
  C3, amended. When the skeleton export completes normally, the current frame, the active
  action and the armature's pose mode are what they were on entry. The operator has no
  handler: when it raises after reading the armature's animation data, nothing is
  restored and the armature is left in pose mode POSE; when it raises before (no
  armature selected, or an armature without animation data), nothing has been changed.
\<close>

theorem skeleton_export_session_state:
  assumes run: "ExportSkeletonOperator_execute ops scene w = (r, w')"
  shows "(r = None \<longrightarrow>
            frame_current w' = frame_current w \<and> action w' = action w
            \<and> armature_pose_position w' = armature_pose_position w)
       \<and> (r \<noteq> None \<longrightarrow>
            (\<forall>arm. getSelectedArmature (selected_objects scene) = Some arm
                    \<and> has_animation_data arm \<longrightarrow> armature_pose_position w' = POSE)
            \<and> (getSelectedArmature (selected_objects scene) = None
                 \<or> (\<exists>arm. getSelectedArmature (selected_objects scene) = Some arm
                           \<and> \<not> has_animation_data arm) \<longrightarrow> w' = w))"
proof (cases "getSelectedArmature (selected_objects scene)")
  case None
  with run show ?thesis by (simp add: ExportSkeletonOperator_execute_def)
next
  case (Some arm)
  show ?thesis
  proof (cases "has_animation_data arm")
    case False
    with Some run show ?thesis by (simp add: ExportSkeletonOperator_execute_def Let_def)
  next
    case anim: True
    show ?thesis
    proof (cases "skeletonPath_writable scene")
      case False
      with Some anim run show ?thesis
        by (auto simp: ExportSkeletonOperator_execute_def Let_def setArmaturePosition_def)
    next
      case True
      define body where "body =
        andThen (on_file (\<lambda>f. writeUint8 f (int (length (bones arm))))
                   (w\<lparr>armature_pose_position := POSE, created := True, written := []\<rparr>))
         (\<lambda>w. andThen
              (case getAxisMappingMatrix ops scene of
                 Inl e \<Rightarrow> (Some e, w)
               | Inr t \<Rightarrow> on_file (\<lambda>f. writeJoints ops f arm t) w)
         (\<lambda>w. andThen (on_file (\<lambda>f. writeUint32 f (int (length (actions scene)))) w)
         (\<lambda>w. write_all (export_animation ops scene arm) w (actions scene))))"
      have pose: "armature_pose_position (snd body) = POSE"
        unfolding body_def by (rule skeleton_body_pose) simp
      from skeleton_execute_split [OF Some anim True, of ops w] run
      have ex: "andThen body
            (\<lambda>w4. (None, w4\<lparr>frame_current := frame_current w, action := action w,
                        armature_pose_position := armature_pose_position w\<rparr>)) = (r, w')"
        by (simp add: body_def)
      obtain r0 s where b: "body = (r0, s)" by (cases body)
      show ?thesis
      proof (cases r0)
        case None
        with ex b show ?thesis by auto
      next
        case (Some e)
        with ex b pose \<open>getSelectedArmature (selected_objects scene) = Some arm\<close> anim
        show ?thesis by auto
      qed
    qed
  qed
qed

section \<open>Runs of the skeleton export on the sample scenes\<close>

lemma sample_joints_run:
  "writeJoints sample_bpy f sample_armature sim_identity = (None, f @ sample_joints)"
  by (simp add: writeJoints_def writeJoint_def writeUint8_wb bones_find_def pos_def
      sample_armature_def sample_bpy_def sim_inverted_def sim_identity_def sim_apply_def
      sim_rows_def sample_joints_def)

lemma sample_run_any:
  "armature_pose_position w = POSE \<Longrightarrow>
   writeAnimation sample_bpy w sample_armature sample_action sim_identity
   = (None, w\<lparr>frame_current := 3, action := Some sample_action,
              written := written w @ [Pack_I 2, Pack_I 3, Encoded [114, 117, 110]]
                           @ sample_poses\<rparr>)"
  by (simp add: writeAnimation_def writeFrame_def writePose_def parentSpacePose_def
      pose_bone_matrix_def pose_floats_def on_file_def Let_def py_int_def sample_bpy_def
      sample_armature_def sample_action_def sim_identity_def sim_inverted_def sim_apply_def
      writeUint32_wb writeString_wb sample_poses_def)

lemma accent_run_any:
  "writeAnimation sample_bpy w sample_armature accent_action sim_identity
   = (Some UnicodeEncodeError,
      w\<lparr>action := Some accent_action, written := written w @ [Pack_I 2, Pack_I 1]\<rparr>)"
  by (simp add: writeAnimation_def on_file_def Let_def py_int_def accent_action_def
      writeUint32_wb writeString_wb)

lemma sample_armature_facts:
  "has_animation_data sample_armature" "length (bones sample_armature) = 3"
  by (simp_all add: sample_armature_def)

lemma skinned_scene_facts:
  "getSelectedArmature (selected_objects skinned_scene) = Some sample_armature"
  "getSelectedMeshObjects (selected_objects skinned_scene) = [skinned_object]"
  "actions skinned_scene = [sample_action]"
  "skeletonPath_writable skinned_scene" "meshPath_writable skinned_scene"
  "getAxisMappingMatrix sample_bpy skinned_scene = Inr sim_identity"
  by (simp_all add: skinned_scene_def getAxisMappingMatrix_def sample_bpy_def)

lemma accent_scene_facts:
  "getSelectedArmature (selected_objects accent_scene) = Some sample_armature"
  "actions accent_scene = [accent_action]"
  "skeletonPath_writable accent_scene"
  "getAxisMappingMatrix sample_bpy accent_scene = Inr sim_identity"
  by (simp_all add: accent_scene_def skinned_scene_def getAxisMappingMatrix_def sample_bpy_def)

lemma skinned_skeleton_run:
  "ExportSkeletonOperator_execute sample_bpy skinned_scene world0
   = (None, world0\<lparr>created := True,
                   written := Pack_B 3 # sample_joints
                     @ [Pack_I 1, Pack_I 2, Pack_I 3, Encoded [114, 117, 110]] @ sample_poses\<rparr>)"
  by (simp add: skeleton_execute_split [OF skinned_scene_facts(1) sample_armature_facts(1)
        skinned_scene_facts(4)]
      skinned_scene_facts sample_armature_facts on_file_def writeUint8_wb writeUint32_wb
      export_animation_def sample_joints_run sample_run_any world0_def)

lemma accent_skeleton_run:
  "ExportSkeletonOperator_execute sample_bpy accent_scene world0
   = (Some UnicodeEncodeError,
      world0\<lparr>action := Some accent_action, armature_pose_position := POSE, created := True,
             written := Pack_B 3 # sample_joints @ [Pack_I 1, Pack_I 2, Pack_I 1]\<rparr>)"
  by (simp add: skeleton_execute_split [OF accent_scene_facts(1) sample_armature_facts(1)
        accent_scene_facts(3)]
      accent_scene_facts sample_armature_facts on_file_def writeUint8_wb writeUint32_wb
      export_animation_def sample_joints_run accent_run_any world0_def)

theorem writeAnimation_name_bytes_witness:
  "0 \<le> endFrame accent_action - startFrame accent_action + 1
   \<and> endFrame accent_action - startFrame accent_action + 1 < 2 ^ 32
   \<and> int (length (action_name accent_action)) < 2 ^ 32
   \<and> \<not> (\<forall>c \<in> set (action_name accent_action). c < 128)
   \<and> writeAnimation sample_bpy (world0\<lparr>armature_pose_position := POSE\<rparr>) sample_armature
        accent_action sim_identity
      = (Some UnicodeEncodeError,
         world0\<lparr>action := Some accent_action, armature_pose_position := POSE,
                written := [Pack_I 2, Pack_I 1]\<rparr>)
   \<and> (\<exists>r w' rest. writeAnimation sample_bpy (world0\<lparr>armature_pose_position := POSE\<rparr>)
          sample_armature sample_action sim_identity = (r, w')
        \<and> written w' = [Pack_I 2, Pack_I 3, Encoded [114, 117, 110]] @ rest)
   \<and> ExportSkeletonOperator_execute sample_bpy accent_scene world0
      = (Some UnicodeEncodeError,
         world0\<lparr>action := Some accent_action, armature_pose_position := POSE, created := True,
                written := Pack_B 3 # sample_joints @ [Pack_I 1, Pack_I 2, Pack_I 1]\<rparr>)"
proof -
  let ?w = "world0\<lparr>armature_pose_position := POSE\<rparr>"
  have a1: "0 \<le> endFrame accent_action - startFrame accent_action + 1" by simp
  have a2: "endFrame accent_action - startFrame accent_action + 1 < 2 ^ 32" by simp
  have a3: "int (length (action_name accent_action)) < 2 ^ 32" by (simp add: accent_action_def)
  have a4: "\<not> (\<forall>c \<in> set (action_name accent_action). c < 128)" by (simp add: accent_action_def)
  have h1: "0 \<le> endFrame sample_action - startFrame sample_action + 1" by simp
  have h2: "endFrame sample_action - startFrame sample_action + 1 < 2 ^ 32" by simp
  have h3: "\<forall>c \<in> set (action_name sample_action). c < 128" by (simp add: sample_action_def)
  have h4: "int (length (action_name sample_action)) < 2 ^ 32" by (simp add: sample_action_def)
  from writeAnimation_name_bytes [OF a1 a2 a3, of sample_bpy ?w sample_armature sim_identity] a4
  have bad: "writeAnimation sample_bpy ?w sample_armature accent_action sim_identity
      = (Some UnicodeEncodeError,
         ?w\<lparr>action := Some accent_action,
            written := written ?w @ [Pack_I (endFrame accent_action - startFrame accent_action + 1),
                      Pack_I (int (length (action_name accent_action)))]\<rparr>)"
    by blast
  then have bad': "writeAnimation sample_bpy ?w sample_armature accent_action sim_identity
      = (Some UnicodeEncodeError,
         world0\<lparr>action := Some accent_action, armature_pose_position := POSE,
                written := [Pack_I 2, Pack_I 1]\<rparr>)"
    by (simp add: world0_def sample_names)
  from writeAnimation_name_bytes [OF h1 h2 h4, of sample_bpy ?w sample_armature sim_identity] h3
  obtain r w' rest
    where "writeAnimation sample_bpy ?w sample_armature sample_action sim_identity = (r, w')"
      and "written w' = written ?w @ [Pack_I (endFrame sample_action - startFrame sample_action + 1),
                    Pack_I (int (length (action_name sample_action))),
                    Encoded (action_name sample_action)] @ rest"
    by blast
  then have good: "\<exists>r w' rest. writeAnimation sample_bpy ?w sample_armature sample_action
          sim_identity = (r, w')
        \<and> written w' = [Pack_I 2, Pack_I 3, Encoded [114, 117, 110]] @ rest"
    by (simp add: world0_def sample_names)
  from a1 a2 a3 a4 bad' good accent_skeleton_run show ?thesis by blast
qed

text \<open>
  C3, as stated, fails: exporting the scene whose action has a name that is not ASCII
  from a session at frame 7, with no active action and the armature in rest position,
  raises UnicodeEncodeError and leaves the armature in pose position with that action
  active.
\<close>

theorem skeleton_export_counterexample:
  "ExportSkeletonOperator_execute sample_bpy accent_scene world0
   = (Some UnicodeEncodeError,
      world0\<lparr>action := Some accent_action, armature_pose_position := POSE, created := True,
             written := Pack_B 3 # sample_joints @ [Pack_I 1, Pack_I 2, Pack_I 1]\<rparr>)
   \<and> armature_pose_position world0 = REST
   \<and> armature_pose_position (snd (ExportSkeletonOperator_execute sample_bpy accent_scene world0))
       = POSE
   \<and> action world0 = None
   \<and> action (snd (ExportSkeletonOperator_execute sample_bpy accent_scene world0))
       = Some accent_action"
  by (simp add: accent_skeleton_run) (simp add: world0_def)

theorem skeleton_export_session_state_witness:
  "ExportSkeletonOperator_execute sample_bpy skinned_scene world0
   = (None, world0\<lparr>created := True,
                   written := Pack_B 3 # sample_joints
                     @ [Pack_I 1, Pack_I 2, Pack_I 3, Encoded [114, 117, 110]] @ sample_poses\<rparr>)
   \<and> frame_current (snd (ExportSkeletonOperator_execute sample_bpy skinned_scene world0)) = 7
   \<and> action (snd (ExportSkeletonOperator_execute sample_bpy skinned_scene world0)) = None
   \<and> armature_pose_position (snd (ExportSkeletonOperator_execute sample_bpy skinned_scene world0))
       = REST
   \<and> fst (ExportSkeletonOperator_execute sample_bpy accent_scene world0) \<noteq> None
   \<and> armature_pose_position (snd (ExportSkeletonOperator_execute sample_bpy accent_scene world0))
       = POSE"
proof -
  let ?good = "ExportSkeletonOperator_execute sample_bpy skinned_scene world0"
  let ?bad = "ExportSkeletonOperator_execute sample_bpy accent_scene world0"
  have g: "?good = (fst ?good, snd ?good)" by simp
  have b: "?bad = (fst ?bad, snd ?bad)" by simp
  have ok: "fst ?good = None" by (simp add: skinned_skeleton_run)
  have raised: "fst ?bad \<noteq> None" by (simp add: accent_skeleton_run)
  from skeleton_export_session_state [OF g] ok
  have restored: "frame_current (snd ?good) = frame_current world0
      \<and> action (snd ?good) = action world0
      \<and> armature_pose_position (snd ?good) = armature_pose_position world0"
    by blast
  from skeleton_export_session_state [OF b] raised accent_scene_facts(1) sample_armature_facts(1)
  have left: "armature_pose_position (snd ?bad) = POSE" by blast
  from restored have "frame_current (snd ?good) = 7 \<and> action (snd ?good) = None
      \<and> armature_pose_position (snd ?good) = REST"
    by (simp add: world0_def)
  with skinned_skeleton_run raised left show ?thesis by simp
qed

section \<open>getDataFromMeshObjects\<close>

lemma bind_groups_spec:
  assumes "length ji = 4" and "length jw = 4"
    and "\<forall>j < length gs. i + j < 4 \<longrightarrow> group (gs ! j) < length (vertex_groups obj)"
  shows "\<exists>ji' jw'. bind_groups obj arm i gs ji jw = Inr (ji', jw')
     \<and> length ji' = 4 \<and> length jw' = 4
     \<and> (\<forall>j < length gs. i + j < 4 \<longrightarrow>
           ji' ! (i + j) = bones_find (bones arm) (vertex_groups obj ! group (gs ! j))
           \<and> jw' ! (i + j) = weight (gs ! j))
     \<and> (\<forall>n < i. ji' ! n = ji ! n \<and> jw' ! n = jw ! n)"
  using assms
proof (induction gs arbitrary: i ji jw)
  case Nil
  then show ?case by simp
next
  case (Cons g gs)
  show ?case
  proof (cases "i < 4")
    case True
    let ?ji = "ji[i := bones_find (bones arm) (vertex_groups obj ! group g)]"
    let ?jw = "jw[i := weight g]"
    from Cons.prems(3) True have g: "group g < length (vertex_groups obj)" by auto
    from Cons.prems(3)
    have rest: "\<forall>j < length gs. Suc i + j < 4 \<longrightarrow> group (gs ! j) < length (vertex_groups obj)"
      by auto
    from Cons.prems(1,2) have l: "length ?ji = 4" "length ?jw = 4" by simp_all
    from Cons.IH [OF l rest] obtain ji' jw'
      where run: "bind_groups obj arm (Suc i) gs ?ji ?jw = Inr (ji', jw')"
        and len: "length ji' = 4" "length jw' = 4"
        and new: "\<forall>j < length gs. Suc i + j < 4 \<longrightarrow>
           ji' ! (Suc i + j) = bones_find (bones arm) (vertex_groups obj ! group (gs ! j))
           \<and> jw' ! (Suc i + j) = weight (gs ! j)"
        and old: "\<forall>n < Suc i. ji' ! n = ?ji ! n \<and> jw' ! n = ?jw ! n"
      by blast
    from True g run have 1: "bind_groups obj arm i (g # gs) ji jw = Inr (ji', jw')" by simp
    from old True Cons.prems(1,2)
    have here: "ji' ! i = bones_find (bones arm) (vertex_groups obj ! group g)
        \<and> jw' ! i = weight g"
      by simp
    have 2: "\<forall>j < length (g # gs). i + j < 4 \<longrightarrow>
           ji' ! (i + j) = bones_find (bones arm) (vertex_groups obj ! group ((g # gs) ! j))
           \<and> jw' ! (i + j) = weight ((g # gs) ! j)"
    proof (intro allI impI)
      fix j assume j: "j < length (g # gs)" "i + j < 4"
      show "ji' ! (i + j) = bones_find (bones arm) (vertex_groups obj ! group ((g # gs) ! j))
           \<and> jw' ! (i + j) = weight ((g # gs) ! j)"
      proof (cases j)
        case 0
        with here show ?thesis by simp
      next
        case (Suc k)
        with j new show ?thesis by simp
      qed
    qed
    from old have 3: "\<forall>n < i. ji' ! n = ji ! n \<and> jw' ! n = jw ! n" by simp
    from 1 len 2 3 show ?thesis by blast
  next
    case False
    from False have rest: "\<forall>j < length gs. Suc i + j < 4 \<longrightarrow>
        group (gs ! j) < length (vertex_groups obj)"
      by simp
    from Cons.IH [OF Cons.prems(1,2) rest] obtain ji' jw'
      where run: "bind_groups obj arm (Suc i) gs ji jw = Inr (ji', jw')"
        and len: "length ji' = 4" "length jw' = 4"
        and old: "\<forall>n < Suc i. ji' ! n = ji ! n \<and> jw' ! n = jw ! n"
      by blast
    from False run have 1: "bind_groups obj arm i (g # gs) ji jw = Inr (ji', jw')" by simp
    from 1 len old False show ?thesis by auto
  qed
qed

lemma corner_vertex_None:
  assumes "corner_ok obj None mesh i"
  shows "\<exists>data. uv_layers_active mesh = Some data
     \<and> corner_vertex obj None mesh i =
         Inr \<lparr>position = undeformed_co (vertices mesh ! vertex_index (loops mesh ! i)),
              uv = (fst (data ! i), 1 - snd (data ! i)),
              normal = loop_normal (loops mesh ! i),
              jointIndices = [0, 0, 0, 0], jointWeights = [0, 0, 0, 0]\<rparr>"
  using assms
  by (auto simp: corner_ok_def corner_vertex_def Let_def normalizeJointWeights_def)

lemma corner_vertex_Some:
  assumes ok: "corner_ok obj (Some arm) mesh i"
  shows "\<exists>data ji jw w. uv_layers_active mesh = Some data
     \<and> bind_groups obj arm 0 (groups (vertices mesh ! vertex_index (loops mesh ! i)))
         [0, 0, 0, 0] [0, 0, 0, 0] = Inr (ji, jw)
     \<and> length ji = 4 \<and> length jw = 4
     \<and> normalizeJointWeights jw = Inr w
     \<and> corner_vertex obj (Some arm) mesh i =
         Inr \<lparr>position = undeformed_co (vertices mesh ! vertex_index (loops mesh ! i)),
              uv = (fst (data ! i), 1 - snd (data ! i)),
              normal = loop_normal (loops mesh ! i),
              jointIndices = ji, jointWeights = w\<rparr>"
proof -
  let ?gs = "groups (vertices mesh ! vertex_index (loops mesh ! i))"
  from ok obtain data where data: "uv_layers_active mesh = Some data" "i < length data"
    and i: "i < length (loops mesh)"
    and v: "vertex_index (loops mesh ! i) < length (vertices mesh)"
    and g: "\<forall>j < length ?gs. 0 + j < 4 \<longrightarrow> group (?gs ! j) < length (vertex_groups obj)"
    by (auto simp: corner_ok_def)
  have l: "length [0, 0, 0, 0 :: int] = 4" "length [0, 0, 0, 0 :: num] = 4" by simp_all
  from bind_groups_spec [OF l g, of arm] obtain ji jw
    where b: "bind_groups obj arm 0 ?gs [0, 0, 0, 0] [0, 0, 0, 0] = Inr (ji, jw)"
      and len: "length ji = 4" "length jw = 4"
    by blast
  from normalizeJointWeights_4 [OF len(2)] obtain w
    where w: "normalizeJointWeights jw = Inr w" by blast
  from data i v b w have "corner_vertex obj (Some arm) mesh i =
         Inr \<lparr>position = undeformed_co (vertices mesh ! vertex_index (loops mesh ! i)),
              uv = (fst (data ! i), 1 - snd (data ! i)),
              normal = loop_normal (loops mesh ! i),
              jointIndices = ji, jointWeights = w\<rparr>"
    by (simp add: corner_vertex_def Let_def)
  with data b len w show ?thesis by blast
qed

lemma corner_vertex_ok:
  "corner_ok obj armature mesh i \<Longrightarrow>
   corner_vertex obj armature mesh i = Inr (corner_of obj armature mesh i)"
proof (cases armature)
  case None
  assume "corner_ok obj armature mesh i"
  with None corner_vertex_None [of obj mesh i] show ?thesis
    by (auto simp: corner_of_def)
next
  case (Some arm)
  assume "corner_ok obj armature mesh i"
  with Some corner_vertex_Some [of obj arm mesh i] show ?thesis
    by (auto simp: corner_of_def)
qed

lemma corners_loop_eq:
  "\<forall>i \<in> set polygon. corner_ok obj armature mesh i \<Longrightarrow>
   corners_loop obj armature mesh vs fi polygon
     = intern_stream vs fi (map (corner_of obj armature mesh) polygon)"
proof (induction polygon arbitrary: vs fi)
  case Nil
  then show ?case by simp
next
  case (Cons i polygon)
  then show ?case by (simp add: corner_vertex_ok split: sum.splits)
qed

lemma pos_map_stable:
  assumes "set cs \<subseteq> set ks"
  shows "map (\<lambda>v. int (pos (ks @ ext) v)) cs = map (\<lambda>v. int (pos ks v)) cs"
  using assms by (auto simp: pos_append_in)

lemma polygons_loop_inv:
  assumes "dict_inv vs p"
    and "\<forall>polygon \<in> set polys. length polygon = 3 \<longrightarrow>
           (\<forall>i \<in> set polygon. corner_ok obj armature mesh i)"
  shows "\<exists>vs' ext. polygons_loop obj armature mesh vs faces polys
       = Inr (vs', faces @ map (map (\<lambda>v. int (pos (map fst vs') v)))
                 (map (map (corner_of obj armature mesh))
                    (filter (\<lambda>polygon. length polygon = 3) polys)))
     \<and> dict_inv vs' (p @ concat (map (map (corner_of obj armature mesh))
                    (filter (\<lambda>polygon. length polygon = 3) polys)))
     \<and> map fst vs' = map fst vs @ ext"
  using assms
proof (induction polys arbitrary: vs faces p)
  case Nil
  then show ?case by simp
next
  case (Cons polygon polys)
  let ?c = "corner_of obj armature mesh"
  let ?tri = "\<lambda>polygon. length polygon = 3"
  from Cons.prems(2) have rest: "\<forall>polygon \<in> set polys. length polygon = 3 \<longrightarrow>
           (\<forall>i \<in> set polygon. corner_ok obj armature mesh i)"
    by simp
  show ?case
  proof (cases "length polygon = 3")
    case False
    from Cons.IH [OF Cons.prems(1) rest, of faces] False show ?thesis by simp
  next
    case True
    with Cons.prems(2) have ok: "\<forall>i \<in> set polygon. corner_ok obj armature mesh i" by simp
    from intern_stream_inv [OF Cons.prems(1), of "[]" "map ?c polygon"] obtain d1 ext1
      where run1: "intern_stream vs [] (map ?c polygon)
                     = Inr (d1, map (\<lambda>v. int (pos (map fst d1) v)) (map ?c polygon))"
        and inv1: "dict_inv d1 (p @ map ?c polygon)"
        and ext1: "map fst d1 = map fst vs @ ext1"
      by auto
    let ?face = "map (\<lambda>v. int (pos (map fst d1) v)) (map ?c polygon)"
    from Cons.IH [OF inv1 rest, of "faces @ [?face]"] obtain vs' ext
      where run: "polygons_loop obj armature mesh d1 (faces @ [?face]) polys
           = Inr (vs', (faces @ [?face]) @ map (map (\<lambda>v. int (pos (map fst vs') v)))
                 (map (map ?c) (filter ?tri polys)))"
        and inv: "dict_inv vs' ((p @ map ?c polygon) @ concat (map (map ?c) (filter ?tri polys)))"
        and ext: "map fst vs' = map fst d1 @ ext"
      by blast
    from inv1 have "set (map ?c polygon) \<subseteq> set (map fst d1)" by (auto simp: dict_inv_def)
    from pos_map_stable [OF this, of ext] ext
    have same: "map (\<lambda>v. int (pos (map fst vs') v)) (map ?c polygon) = ?face" by simp
    from True ok run1 run same
    have 1: "polygons_loop obj armature mesh vs faces (polygon # polys)
       = Inr (vs', faces @ map (map (\<lambda>v. int (pos (map fst vs') v)))
                 (map (map ?c) (filter ?tri (polygon # polys))))"
      by (simp add: corners_loop_eq)
    from True inv have 2: "dict_inv vs' (p @ concat (map (map ?c) (filter ?tri (polygon # polys))))"
      by simp
    from ext ext1 have 3: "map fst vs' = map fst vs @ (ext1 @ ext)" by simp
    from 1 2 3 show ?thesis by blast
  qed
qed


lemma pos_maps_stable:
  assumes "set (concat css) \<subseteq> set ks"
  shows "map (map (\<lambda>v. int (pos (ks @ ext) v))) css = map (map (\<lambda>v. int (pos ks v))) css"
  using assms by (auto simp: pos_append_in)

lemma objects_loop_inv:
  assumes "dict_inv vs p"
    and "\<forall>obj \<in> set objs. mesh_ok obj armature (evaluated_mesh ops t obj)"
  shows "\<exists>vs' ext. objects_loop ops armature t vs faces objs
       = Inr (vs', faces @ map (map (\<lambda>v. int (pos (map fst vs') v)))
                 (scene_corners ops armature t objs))
     \<and> dict_inv vs' (p @ concat (scene_corners ops armature t objs))
     \<and> map fst vs' = map fst vs @ ext"
  using assms
proof (induction objs arbitrary: vs faces p)
  case Nil
  then show ?case by (simp add: scene_corners_def)
next
  case (Cons obj objs)
  let ?mesh = "evaluated_mesh ops t obj"
  let ?tc = "triangle_corners obj armature ?mesh"
  from Cons.prems(2) have ok: "\<forall>polygon \<in> set (polygons ?mesh). length polygon = 3 \<longrightarrow>
           (\<forall>i \<in> set polygon. corner_ok obj armature ?mesh i)"
    by (simp add: mesh_ok_def)
  from Cons.prems(2) have rest: "\<forall>obj \<in> set objs. mesh_ok obj armature (evaluated_mesh ops t obj)"
    by simp
  from polygons_loop_inv [OF Cons.prems(1) ok, of faces] obtain d1 ext1
    where run1: "polygons_loop obj armature ?mesh vs faces (polygons ?mesh)
       = Inr (d1, faces @ map (map (\<lambda>v. int (pos (map fst d1) v))) ?tc)"
      and inv1: "dict_inv d1 (p @ concat ?tc)"
      and ext1: "map fst d1 = map fst vs @ ext1"
    unfolding triangle_corners_def by blast
  let ?faces1 = "faces @ map (map (\<lambda>v. int (pos (map fst d1) v))) ?tc"
  from Cons.IH [OF inv1 rest, of ?faces1] obtain vs' ext
    where run: "objects_loop ops armature t d1 ?faces1 objs
       = Inr (vs', ?faces1 @ map (map (\<lambda>v. int (pos (map fst vs') v)))
                 (scene_corners ops armature t objs))"
      and inv: "dict_inv vs' ((p @ concat ?tc) @ concat (scene_corners ops armature t objs))"
      and ext: "map fst vs' = map fst d1 @ ext"
    by blast
  from inv1 have "set (concat ?tc) \<subseteq> set (map fst d1)" by (auto simp: dict_inv_def)
  from pos_maps_stable [OF this, of ext] ext
  have same: "map (map (\<lambda>v. int (pos (map fst vs') v))) ?tc
      = map (map (\<lambda>v. int (pos (map fst d1) v))) ?tc"
    by simp
  from run1 run same
  have 1: "objects_loop ops armature t vs faces (obj # objs)
       = Inr (vs', faces @ map (map (\<lambda>v. int (pos (map fst vs') v)))
                 (scene_corners ops armature t (obj # objs)))"
    by (simp add: scene_corners_def)
  from inv have 2: "dict_inv vs' (p @ concat (scene_corners ops armature t (obj # objs)))"
    by (simp add: scene_corners_def)
  from ext ext1 have 3: "map fst vs' = map fst vs @ (ext1 @ ext)" by simp
  from 1 2 3 show ?case by blast
qed

lemma getData_ok:
  assumes "\<forall>obj \<in> set objs. mesh_ok obj armature (evaluated_mesh ops t obj)"
  shows "\<exists>d. getDataFromMeshObjects ops objs armature t
       = Inr (map fst d, map (map (\<lambda>v. int (pos (map fst d) v)))
                           (scene_corners ops armature t objs))
     \<and> dict_inv d (concat (scene_corners ops armature t objs))"
proof -
  have "dict_inv [] []" by (simp add: dict_inv_def)
  from objects_loop_inv [OF this assms, of "[]"] obtain d
    where "objects_loop ops armature t [] [] objs
       = Inr (d, map (map (\<lambda>v. int (pos (map fst d) v))) (scene_corners ops armature t objs))"
      and "dict_inv d (concat (scene_corners ops armature t objs))"
    by auto
  then show ?thesis by (auto simp: getDataFromMeshObjects_def)
qed

lemma dict_inv_length:
  "dict_inv d p \<Longrightarrow> length d = card (set p)"
  using distinct_card [of "map fst d"] by (simp add: dict_inv_def)

section \<open>The mesh file and the mesh operator\<close>

lemma write_mesh_file_faces:
  "65535 < length faces \<Longrightarrow> write_mesh_file h vs faces = (Some StructError, [Pack_bool h])"
  by (simp add: write_mesh_file_def writeUint16_wb)

lemma write_mesh_file_vertices:
  "length faces \<le> 65535 \<Longrightarrow> 65535 < length vs \<Longrightarrow>
   write_mesh_file h vs faces = (Some StructError, [Pack_bool h, Pack_H (int (length faces))])"
  by (simp add: write_mesh_file_def writeUint16_wb)

lemma mesh_execute_raises:
  assumes "getSelectedMeshObjects (selected_objects scene) \<noteq> []"
    and "getAxisMappingMatrix ops scene = Inr t"
    and "getDataFromMeshObjects ops (getSelectedMeshObjects (selected_objects scene))
           (getSelectedArmature (selected_objects scene)) t = Inr (vs, faces)"
    and "meshPath_writable scene"
    and "write_mesh_file (getSelectedArmature (selected_objects scene) \<noteq> None) vs faces
           = (Some e, f)"
  shows "ExportMeshOperator_execute ops scene w =
     (Some e, (if getSelectedArmature (selected_objects scene) \<noteq> None
               then setArmaturePosition w REST else w)\<lparr>created := True, written := f\<rparr>)"
  using assms by (simp add: ExportMeshOperator_execute_def Let_def)

lemma write_all_fails:
  "x \<in> set xs \<Longrightarrow> (\<And>f. fst (step f x) \<noteq> None) \<Longrightarrow> fst (write_all step f xs) \<noteq> None"
proof (induction xs arbitrary: f)
  case Nil
  then show ?case by simp
next
  case (Cons y ys)
  obtain r f1 where s: "step f y = (r, f1)" by (cases "step f y")
  show ?case
  proof (cases r)
    case None
    with Cons.prems(2) [of f] s have "x \<noteq> y" by auto
    with Cons.prems have "x \<in> set ys" by simp
    from Cons.IH [OF this Cons.prems(2), of f1] None s show ?thesis by simp
  next
    case (Some e)
    with s show ?thesis by simp
  qed
qed

lemma write_indexed_uint8_bad:
  assumes "length xs = 4" and "k < 4" and "xs ! k = - 1"
  shows "fst (write_indexed writeUint8 f xs [0, 1, 2, 3]) = Some StructError"
proof -
  from assms(1) obtain a b c d where xs: "xs = [a, b, c, d]" by (rule list4_cases)
  from assms(2) have "k = 0 \<or> k = 1 \<or> k = 2 \<or> k = 3" by auto
  with assms(3) xs show ?thesis
    by (auto simp: writeUint8_wb)
qed

lemma writeVertex_bad:
  assumes "length (jointIndices v) = 4" and "k < 4" and "jointIndices v ! k = - 1"
  shows "fst (writeVertex True f v) = Some StructError"
proof -
  let ?f = "f @ map Pack_f [vx (position v), vy (position v), vz (position v),
         fst (uv v), snd (uv v), vx (normal v), vy (normal v), vz (normal v)]"
  obtain r f1 where w: "write_indexed writeUint8 ?f (jointIndices v) [0, 1, 2, 3] = (r, f1)"
    by (cases "write_indexed writeUint8 ?f (jointIndices v) [0, 1, 2, 3]")
  from write_indexed_uint8_bad [OF assms, of ?f] w have "r = Some StructError" by simp
  with w show ?thesis by (simp add: writeVertex_def)
qed

section \<open>A vertex group without a bone\<close>

text \<open>
  C5, amended. For a corner whose vertex is in a vertex group (among its first four)
  whose name is no bone of the armature, baking does not raise: the Vertex gets the joint
  index -1 at that place (what \<open>bones.find\<close> returns), and the group's weight is kept
  and normalised with the others, not set to zero. Serialising that Vertex with joint
  bindings raises \<open>struct.error\<close>, since -1 is not an unsigned byte, so writeVertices
  raises on any list that holds it.
\<close>

theorem unmatched_group_binding:
  assumes ok: "corner_ok obj (Some arm) mesh i"
    and k: "k < length (groups (vertices mesh ! vertex_index (loops mesh ! i)))" "k < 4"
    and miss: "vertex_groups obj ! group (groups (vertices mesh ! vertex_index (loops mesh ! i)) ! k)
                 \<notin> set (map bone_name (bones arm))"
  shows "\<exists>vertex raw. corner_vertex obj (Some arm) mesh i = Inr vertex
     \<and> jointIndices vertex ! k = - 1
     \<and> length raw = 4
     \<and> raw ! k = weight (groups (vertices mesh ! vertex_index (loops mesh ! i)) ! k)
     \<and> normalizeJointWeights raw = Inr (jointWeights vertex)
     \<and> (\<forall>f. fst (writeVertex True f vertex) = Some StructError)
     \<and> (\<forall>f vs. vertex \<in> set vs \<longrightarrow> fst (writeVertices f vs True) \<noteq> None)"
proof -
  let ?gs = "groups (vertices mesh ! vertex_index (loops mesh ! i))"
  from corner_vertex_Some [OF ok] obtain data ji jw w
    where b: "bind_groups obj arm 0 ?gs [0, 0, 0, 0] [0, 0, 0, 0] = Inr (ji, jw)"
      and len: "length ji = 4" "length jw = 4"
      and w: "normalizeJointWeights jw = Inr w"
      and cv: "corner_vertex obj (Some arm) mesh i =
         Inr \<lparr>position = undeformed_co (vertices mesh ! vertex_index (loops mesh ! i)),
              uv = (fst (data ! i), 1 - snd (data ! i)),
              normal = loop_normal (loops mesh ! i),
              jointIndices = ji, jointWeights = w\<rparr>"
    by blast
  let ?v = "\<lparr>position = undeformed_co (vertices mesh ! vertex_index (loops mesh ! i)),
              uv = (fst (data ! i), 1 - snd (data ! i)),
              normal = loop_normal (loops mesh ! i),
              jointIndices = ji, jointWeights = w\<rparr>"
  from ok have g: "\<forall>j < length ?gs. 0 + j < 4 \<longrightarrow> group (?gs ! j) < length (vertex_groups obj)"
    by (auto simp: corner_ok_def)
  have l: "length [0, 0, 0, 0 :: int] = 4" "length [0, 0, 0, 0 :: num] = 4" by simp_all
  from bind_groups_spec [OF l g, of arm] b k
  have at: "ji ! k = bones_find (bones arm) (vertex_groups obj ! group (?gs ! k))"
      "jw ! k = weight (?gs ! k)"
    by auto
  from at(1) miss have idx: "jointIndices ?v ! k = - 1" by (simp add: bones_find_missing)
  have bad: "fst (writeVertex True f ?v) = Some StructError" for f
    by (rule writeVertex_bad [of ?v k]) (use len k idx in simp_all)
  have all: "fst (writeVertices f vs True) \<noteq> None" if "?v \<in> set vs" for f vs
    unfolding writeVertices_def by (rule write_all_fails [OF that]) (simp add: bad)
  show ?thesis
  proof (intro exI conjI)
    show "corner_vertex obj (Some arm) mesh i = Inr ?v" by (rule cv)
    show "jointIndices ?v ! k = - 1" by (rule idx)
    show "length jw = 4" by (rule len)
    show "jw ! k = weight (?gs ! k)" by (rule at)
    show "normalizeJointWeights jw = Inr (jointWeights ?v)" using w by simp
    show "\<forall>f. fst (writeVertex True f ?v) = Some StructError" using bad by blast
    show "\<forall>f vs. ?v \<in> set vs \<longrightarrow> fst (writeVertices f vs True) \<noteq> None" using all by blast
  qed
qed

lemma skinned_corner:
  "corner_vertex skinned_object (Some sample_armature) tri_mesh 0
   = Inr \<lparr>position = \<lparr>vx = 0, vy = 0, vz = 0\<rparr>, uv = (0, 1),
          normal = \<lparr>vx = 0, vy = 0, vz = 1\<rparr>,
          jointIndices = [- 1, 0, 0, 0], jointWeights = [1, 0, 0, 0]\<rparr>"
  by (simp add: corner_vertex_def Let_def tri_mesh_def skinned_object_def sample_armature_def
      bones_find_def normalizeJointWeights_def)

lemma skinned_evaluated:
  "evaluated_mesh sample_bpy sim_identity skinned_object = tri_mesh"
  by (simp add: evaluated_mesh_def sample_bpy_def skinned_object_def tri_mesh_def
      sim_identity_def sim_apply_def)

lemma skinned_data:
  "getDataFromMeshObjects sample_bpy [skinned_object] (Some sample_armature) sim_identity
   = Inr ([\<lparr>position = \<lparr>vx = 0, vy = 0, vz = 0\<rparr>, uv = (0, 1),
            normal = \<lparr>vx = 0, vy = 0, vz = 1\<rparr>,
            jointIndices = [- 1, 0, 0, 0], jointWeights = [1, 0, 0, 0]\<rparr>,
           \<lparr>position = \<lparr>vx = 1, vy = 0, vz = 0\<rparr>, uv = (1, 1),
            normal = \<lparr>vx = 0, vy = 0, vz = 1\<rparr>,
            jointIndices = [- 1, 0, 0, 0], jointWeights = [1, 0, 0, 0]\<rparr>,
           \<lparr>position = \<lparr>vx = 0, vy = 1, vz = 0\<rparr>, uv = (0, 0),
            normal = \<lparr>vx = 0, vy = 0, vz = 1\<rparr>,
            jointIndices = [- 1, 0, 0, 0], jointWeights = [1, 0, 0, 0]\<rparr>],
          [[0, 1, 2]])"
  by (simp add: getDataFromMeshObjects_def skinned_evaluated Let_def)
     (simp add: corner_vertex_def Let_def tri_mesh_def skinned_object_def sample_armature_def
        bones_find_def normalizeJointWeights_def intern_def dict_get_map_of same_key_iff)

lemma skinned_mesh_run:
  "ExportMeshOperator_execute sample_bpy skinned_scene world0
   = (Some StructError,
      world0\<lparr>created := True,
             written := [Pack_bool True, Pack_H 1, Pack_H 3, Pack_H 0, Pack_H 1, Pack_H 2]
                        @ map Pack_f [0, 0, 0, 0, 1, 0, 0, 1]\<rparr>)"
  by (simp add: ExportMeshOperator_execute_def Let_def skinned_scene_facts skinned_data
      setArmaturePosition_def write_mesh_file_def writeFaces_def writeVertices_def
      writeVertex_def writeUint16_wb writeUint8_wb world0_def)

text \<open>
  C5, as stated, fails: in the sample scene the triangle's vertices are in the vertex
  group "X" and the armature has no bone "X". The baked Vertex has the joint index -1,
  which is out of range, with the weight 1, and the mesh export raises while it writes
  the first vertex, after the header, the face and eight floats.
\<close>

theorem unmatched_group_counterexample:
  "corner_vertex skinned_object (Some sample_armature) tri_mesh 0
   = Inr \<lparr>position = \<lparr>vx = 0, vy = 0, vz = 0\<rparr>, uv = (0, 1),
          normal = \<lparr>vx = 0, vy = 0, vz = 1\<rparr>,
          jointIndices = [- 1, 0, 0, 0], jointWeights = [1, 0, 0, 0]\<rparr>
   \<and> ExportMeshOperator_execute sample_bpy skinned_scene world0
   = (Some StructError,
      world0\<lparr>created := True,
             written := [Pack_bool True, Pack_H 1, Pack_H 3, Pack_H 0, Pack_H 1, Pack_H 2]
                        @ map Pack_f [0, 0, 0, 0, 1, 0, 0, 1]\<rparr>)"
  using skinned_corner skinned_mesh_run by simp

theorem unmatched_group_binding_witness:
  "corner_vertex skinned_object (Some sample_armature) tri_mesh 0
   = Inr \<lparr>position = \<lparr>vx = 0, vy = 0, vz = 0\<rparr>, uv = (0, 1),
          normal = \<lparr>vx = 0, vy = 0, vz = 1\<rparr>,
          jointIndices = [- 1, 0, 0, 0], jointWeights = [1, 0, 0, 0]\<rparr>
   \<and> fst (writeVertex True []
          \<lparr>position = \<lparr>vx = 0, vy = 0, vz = 0\<rparr>, uv = (0, 1),
           normal = \<lparr>vx = 0, vy = 0, vz = 1\<rparr>,
           jointIndices = [- 1, 0, 0, 0], jointWeights = [1, 0, 0, 0]\<rparr>) = Some StructError"
proof -
  have ok: "corner_ok skinned_object (Some sample_armature) tri_mesh 0"
    by (simp add: corner_ok_def tri_mesh_def skinned_object_def)
  have k: "0 < length (groups (vertices tri_mesh ! vertex_index (loops tri_mesh ! 0)))"
    by (simp add: tri_mesh_def)
  have k4: "(0::nat) < 4" by simp
  have miss: "vertex_groups skinned_object
        ! group (groups (vertices tri_mesh ! vertex_index (loops tri_mesh ! 0)) ! 0)
      \<notin> set (map bone_name (bones sample_armature))"
    by (simp add: tri_mesh_def skinned_object_def sample_armature_def)
  from unmatched_group_binding [OF ok k k4 miss] obtain vertex
    where cv: "corner_vertex skinned_object (Some sample_armature) tri_mesh 0 = Inr vertex"
      and bad: "\<forall>f. fst (writeVertex True f vertex) = Some StructError"
    by blast
  from cv skinned_corner have "vertex = \<lparr>position = \<lparr>vx = 0, vy = 0, vz = 0\<rparr>, uv = (0, 1),
          normal = \<lparr>vx = 0, vy = 0, vz = 1\<rparr>,
          jointIndices = [- 1, 0, 0, 0], jointWeights = [1, 0, 0, 0]\<rparr>"
    by simp
  with bad skinned_corner show ?thesis by blast
qed

section \<open>The capacity of the count fields\<close>

lemma sim_apply_identity:
  "sim_apply (matmul sample_bpy sim_identity sim_identity) p = p"
  by (simp add: sim_apply_def sample_bpy_def sim_identity_def)

lemma soup_evaluated:
  "evaluated_mesh sample_bpy sim_identity (soup_object n k) = soup_mesh n k"
proof -
  have "map (\<lambda>v. v\<lparr>undeformed_co :=
            sim_apply (matmul sample_bpy sim_identity sim_identity) (undeformed_co v)\<rparr>) vs = vs"
    for vs :: "MeshVertex list"
    by (induction vs) (simp_all add: sim_apply_identity)
  then show ?thesis
    by (simp add: evaluated_mesh_def soup_object_def sample_bpy_def)
qed

lemma soup_corner_ok:
  assumes "0 < k" and "i < 3 * n"
  shows "corner_ok (soup_object n k) None (soup_mesh n k) i"
  using assms by (simp add: corner_ok_def soup_mesh_def)

lemma soup_mesh_ok:
  "0 < k \<Longrightarrow> mesh_ok (soup_object n k) None (soup_mesh n k)"
  unfolding mesh_ok_def
proof (intro ballI impI)
  fix polygon i
  assume k: "0 < k" and p: "polygon \<in> set (polygons (soup_mesh n k))" and i: "i \<in> set polygon"
  from p obtain j where "j < n" "polygon = [3 * j, 3 * j + 1, 3 * j + 2]"
    by (auto simp: soup_mesh_def)
  with i have "i < 3 * n" by auto
  with k show "corner_ok (soup_object n k) None (soup_mesh n k) i" by (rule soup_corner_ok)
qed

lemma soup_corner_of:
  assumes "0 < k" and "i < 3 * n"
  shows "corner_of (soup_object n k) None (soup_mesh n k) i = vtx (of_nat (i mod k)) 0"
proof -
  from corner_vertex_None [OF soup_corner_ok [OF assms]] assms
  have "corner_vertex (soup_object n k) None (soup_mesh n k) i = Inr (vtx (of_nat (i mod k)) 0)"
    by (simp add: soup_mesh_def vtx_def)
  then show ?thesis by (simp add: corner_of_def)
qed

lemma soup_triangles:
  "length (triangle_corners (soup_object n k) None (soup_mesh n k)) = n"
proof -
  have "\<forall>polygon \<in> set (polygons (soup_mesh n k)). length polygon = 3"
    by (simp add: soup_mesh_def)
  then have "filter (\<lambda>polygon. length polygon = 3) (polygons (soup_mesh n k))
      = polygons (soup_mesh n k)"
    by simp
  then have "length (triangle_corners (soup_object n k) None (soup_mesh n k))
      = length (polygons (soup_mesh n k))"
    by (simp add: triangle_corners_def)
  also have "\<dots> = n" by (simp add: soup_mesh_def)
  finally show ?thesis .
qed

lemma soup_corner_covered:
  assumes "0 < k" and "i < 3 * n"
  shows "vtx (of_nat (i mod k)) 0
           \<in> set (concat (triangle_corners (soup_object n k) None (soup_mesh n k)))"
proof -
  let ?p = "[3 * (i div 3), 3 * (i div 3) + 1, 3 * (i div 3) + 2]"
  let ?c = "corner_of (soup_object n k) None (soup_mesh n k)"
  from assms(2) have j: "i div 3 < n" by simp
  then have "?p \<in> (\<lambda>j. [3 * j, 3 * j + 1, 3 * j + 2]) ` {0..<n}" by (intro imageI) simp
  then have p: "?p \<in> set (polygons (soup_mesh n k))" by (simp add: soup_mesh_def)
  have "length ?p = 3" by simp
  with p have "?p \<in> set (filter (\<lambda>polygon. length polygon = 3) (polygons (soup_mesh n k)))"
    by simp
  then have m: "map ?c ?p \<in> set (triangle_corners (soup_object n k) None (soup_mesh n k))"
    unfolding triangle_corners_def set_map by (rule imageI)
  have "i = 3 * (i div 3) \<or> i = 3 * (i div 3) + 1 \<or> i = 3 * (i div 3) + 2" by presburger
  then have "i \<in> set ?p" by auto
  then have "?c i \<in> set (map ?c ?p)" unfolding set_map by (rule imageI)
  with m have "?c i \<in> set (concat (triangle_corners (soup_object n k) None (soup_mesh n k)))"
    unfolding set_concat by (rule UN_I)
  with soup_corner_of [OF assms] show ?thesis by simp
qed

lemma soup_distinct_vertices:
  "3 * n \<le> card (set (concat (triangle_corners (soup_object n (3 * n)) None (soup_mesh n (3 * n)))))"
proof (cases "n = 0")
  case True
  then show ?thesis by simp
next
  case False
  let ?S = "set (concat (triangle_corners (soup_object n (3 * n)) None (soup_mesh n (3 * n))))"
  let ?f = "\<lambda>i :: nat. vtx (of_nat i) 0"
  from False have k: "0 < 3 * n" by simp
  have sub: "?f ` {0..<3 * n} \<subseteq> ?S"
  proof
    fix v assume "v \<in> ?f ` {0..<3 * n}"
    then obtain i where i: "i < 3 * n" "v = ?f i" by auto
    from soup_corner_covered [OF k i(1)] i show "v \<in> ?S" by simp
  qed
  have "inj_on ?f {0..<3 * n}" by (rule inj_onI) (simp add: vtx_eq_iff)
  then have "card (?f ` {0..<3 * n}) = 3 * n" by (simp add: card_image)
  moreover from sub have "card (?f ` {0..<3 * n}) \<le> card ?S" by (intro card_mono) simp_all
  ultimately show ?thesis by simp
qed

lemma soup_data:
  assumes "0 < k"
  shows "\<exists>vs faces. getDataFromMeshObjects sample_bpy [soup_object n k] None sim_identity
           = Inr (vs, faces)
     \<and> length faces = n \<and> (k = 3 * n \<longrightarrow> 3 * n \<le> length vs)"
proof -
  let ?tc = "triangle_corners (soup_object n k) None (soup_mesh n k)"
  have "mesh_ok (soup_object n k) None (evaluated_mesh sample_bpy sim_identity (soup_object n k))"
    using soup_mesh_ok [OF assms, of n] by (simp only: soup_evaluated)
  then have ok: "\<forall>obj \<in> set [soup_object n k].
      mesh_ok obj None (evaluated_mesh sample_bpy sim_identity obj)"
    by simp
  have sc: "scene_corners sample_bpy None sim_identity [soup_object n k] = ?tc"
    by (simp add: scene_corners_def soup_evaluated)
  from getData_ok [OF ok] obtain d
    where run: "getDataFromMeshObjects sample_bpy [soup_object n k] None sim_identity
       = Inr (map fst d, map (map (\<lambda>v. int (pos (map fst d) v)))
                (scene_corners sample_bpy None sim_identity [soup_object n k]))"
      and inv: "dict_inv d (concat (scene_corners sample_bpy None sim_identity [soup_object n k]))"
    by (elim exE conjE)
  from inv have inv': "dict_inv d (concat ?tc)" by (simp only: sc)
  have faces: "length (map (map (\<lambda>v. int (pos (map fst d) v)))
                (scene_corners sample_bpy None sim_identity [soup_object n k])) = n"
    by (simp only: sc length_map soup_triangles)
  have verts: "k = 3 * n \<longrightarrow> 3 * n \<le> length (map fst d)"
  proof
    assume k: "k = 3 * n"
    from dict_inv_length [OF inv'] have "length d = card (set (concat ?tc))" .
    with soup_distinct_vertices [of n] k show "3 * n \<le> length (map fst d)" by simp
  qed
  show ?thesis
    by (intro exI conjI) (rule run, rule faces, rule verts)
qed

lemma soup_scene_facts:
  "getSelectedMeshObjects (selected_objects (soup_scene n k)) = [soup_object n k]"
  "getSelectedArmature (selected_objects (soup_scene n k)) = None"
  "meshPath_writable (soup_scene n k)"
  "getAxisMappingMatrix sample_bpy (soup_scene n k) = Inr sim_identity"
  by (simp_all add: soup_scene_def getAxisMappingMatrix_def sample_bpy_def)

lemma many_bones_facts:
  "getSelectedArmature (selected_objects many_bones_scene) = Some many_bones"
  "has_animation_data many_bones" "skeletonPath_writable many_bones_scene"
  "length (bones many_bones) = 256"
  by (simp_all add: many_bones_scene_def many_bones_def)

lemma skeleton_execute_too_many_bones:
  assumes "getSelectedArmature (selected_objects scene) = Some arm"
    and "has_animation_data arm" and "skeletonPath_writable scene"
    and "255 < length (bones arm)"
  shows "ExportSkeletonOperator_execute ops scene w
     = (Some StructError, w\<lparr>armature_pose_position := POSE, created := True, written := []\<rparr>)"
  using assms(4)
  by (simp add: skeleton_execute_split [OF assms(1,2,3)] on_file_def writeUint8_wb)

lemma soup_faces_run:
  "ExportMeshOperator_execute sample_bpy (soup_scene 65536 3) world0
   = (Some StructError, world0\<lparr>created := True, written := [Pack_bool False]\<rparr>)"
proof -
  from soup_data [of 3 65536] obtain vs faces
    where d: "getDataFromMeshObjects sample_bpy [soup_object 65536 3] None sim_identity
                = Inr (vs, faces)"
      and n: "length faces = 65536"
    by auto
  from n have big: "65535 < length faces" by simp
  have ne: "getSelectedMeshObjects (selected_objects (soup_scene 65536 3)) \<noteq> []"
    by (simp only: soup_scene_facts) simp
  have d': "getDataFromMeshObjects sample_bpy
      (getSelectedMeshObjects (selected_objects (soup_scene 65536 3)))
      (getSelectedArmature (selected_objects (soup_scene 65536 3))) sim_identity = Inr (vs, faces)"
    by (simp only: soup_scene_facts d)
  have w: "write_mesh_file (getSelectedArmature (selected_objects (soup_scene 65536 3)) \<noteq> None)
      vs faces = (Some StructError, [Pack_bool False])"
    using write_mesh_file_faces [OF big, of False vs] by (simp only: soup_scene_facts) simp
  from mesh_execute_raises [OF ne soup_scene_facts(4) d' soup_scene_facts(3) w, of world0]
  show ?thesis by (simp only: soup_scene_facts) simp
qed

text \<open>
  C6, as stated, fails: a mesh of 65536 triangles over three shared vertices is exported
  into a file that has been created and holds the hasSkeleton byte when the face count
  is found not to fit its field.
\<close>

theorem capacity_counterexample:
  "ExportMeshOperator_execute sample_bpy (soup_scene 65536 3) world0
   = (Some StructError, world0\<lparr>created := True, written := [Pack_bool False]\<rparr>)
   \<and> written (snd (ExportMeshOperator_execute sample_bpy (soup_scene 65536 3) world0)) \<noteq> []"
  by (simp add: soup_faces_run)

text \<open>
  C6, amended. The export has no capacity check of its own; a count that does not fit
  its field makes the write of that count raise \<open>struct.error\<close>, after the file has
  been created. A face count above 65535 raises after the hasSkeleton byte has been
  written; a vertex count above 65535 (with a face count that fits) after the
  hasSkeleton byte and the face count; a bone count above 255 at the first write to the
  skeleton file, which is then empty, with the armature left in pose position.
\<close>

theorem capacity_errors_after_open:
  "(getSelectedMeshObjects (selected_objects scene) \<noteq> []
      \<and> getAxisMappingMatrix ops scene = Inr t
      \<and> getDataFromMeshObjects ops (getSelectedMeshObjects (selected_objects scene))
           (getSelectedArmature (selected_objects scene)) t = Inr (vs, faces)
      \<and> meshPath_writable scene \<and> 65535 < length faces
     \<longrightarrow> ExportMeshOperator_execute ops scene w =
          (Some StructError,
           (if getSelectedArmature (selected_objects scene) \<noteq> None
            then setArmaturePosition w REST else w)
             \<lparr>created := True,
              written := [Pack_bool (getSelectedArmature (selected_objects scene) \<noteq> None)]\<rparr>))
   \<and> (getSelectedMeshObjects (selected_objects scene) \<noteq> []
      \<and> getAxisMappingMatrix ops scene = Inr t
      \<and> getDataFromMeshObjects ops (getSelectedMeshObjects (selected_objects scene))
           (getSelectedArmature (selected_objects scene)) t = Inr (vs, faces)
      \<and> meshPath_writable scene \<and> length faces \<le> 65535 \<and> 65535 < length vs
     \<longrightarrow> ExportMeshOperator_execute ops scene w =
          (Some StructError,
           (if getSelectedArmature (selected_objects scene) \<noteq> None
            then setArmaturePosition w REST else w)
             \<lparr>created := True,
              written := [Pack_bool (getSelectedArmature (selected_objects scene) \<noteq> None),
                          Pack_H (int (length faces))]\<rparr>))
   \<and> (getSelectedArmature (selected_objects scene) = Some arm
      \<and> has_animation_data arm \<and> skeletonPath_writable scene \<and> 255 < length (bones arm)
     \<longrightarrow> ExportSkeletonOperator_execute ops scene w =
          (Some StructError,
           w\<lparr>armature_pose_position := POSE, created := True, written := []\<rparr>))"
proof (intro conjI impI)
  assume a: "getSelectedMeshObjects (selected_objects scene) \<noteq> []
      \<and> getAxisMappingMatrix ops scene = Inr t
      \<and> getDataFromMeshObjects ops (getSelectedMeshObjects (selected_objects scene))
           (getSelectedArmature (selected_objects scene)) t = Inr (vs, faces)
      \<and> meshPath_writable scene \<and> 65535 < length faces"
  then have big: "65535 < length faces" by simp
  from a have a1: "getSelectedMeshObjects (selected_objects scene) \<noteq> []"
    and a2: "getAxisMappingMatrix ops scene = Inr t"
    and a3: "getDataFromMeshObjects ops (getSelectedMeshObjects (selected_objects scene))
           (getSelectedArmature (selected_objects scene)) t = Inr (vs, faces)"
    and a4: "meshPath_writable scene"
    by simp_all
  show "ExportMeshOperator_execute ops scene w =
          (Some StructError,
           (if getSelectedArmature (selected_objects scene) \<noteq> None
            then setArmaturePosition w REST else w)
             \<lparr>created := True,
              written := [Pack_bool (getSelectedArmature (selected_objects scene) \<noteq> None)]\<rparr>)"
    by (rule mesh_execute_raises [OF a1 a2 a3 a4 write_mesh_file_faces [OF big]])
next
  assume a: "getSelectedMeshObjects (selected_objects scene) \<noteq> []
      \<and> getAxisMappingMatrix ops scene = Inr t
      \<and> getDataFromMeshObjects ops (getSelectedMeshObjects (selected_objects scene))
           (getSelectedArmature (selected_objects scene)) t = Inr (vs, faces)
      \<and> meshPath_writable scene \<and> length faces \<le> 65535 \<and> 65535 < length vs"
  then have f: "length faces \<le> 65535" and v: "65535 < length vs" by simp_all
  from a have a1: "getSelectedMeshObjects (selected_objects scene) \<noteq> []"
    and a2: "getAxisMappingMatrix ops scene = Inr t"
    and a3: "getDataFromMeshObjects ops (getSelectedMeshObjects (selected_objects scene))
           (getSelectedArmature (selected_objects scene)) t = Inr (vs, faces)"
    and a4: "meshPath_writable scene"
    by simp_all
  show "ExportMeshOperator_execute ops scene w =
          (Some StructError,
           (if getSelectedArmature (selected_objects scene) \<noteq> None
            then setArmaturePosition w REST else w)
             \<lparr>created := True,
              written := [Pack_bool (getSelectedArmature (selected_objects scene) \<noteq> None),
                          Pack_H (int (length faces))]\<rparr>)"
    by (rule mesh_execute_raises [OF a1 a2 a3 a4 write_mesh_file_vertices [OF f v]])
next
  assume "getSelectedArmature (selected_objects scene) = Some arm
      \<and> has_animation_data arm \<and> skeletonPath_writable scene \<and> 255 < length (bones arm)"
  then show "ExportSkeletonOperator_execute ops scene w =
          (Some StructError,
           w\<lparr>armature_pose_position := POSE, created := True, written := []\<rparr>)"
    by (intro skeleton_execute_too_many_bones) blast+
qed

theorem capacity_errors_after_open_witness:
  "ExportMeshOperator_execute sample_bpy (soup_scene 65536 3) world0
     = (Some StructError, world0\<lparr>created := True, written := [Pack_bool False]\<rparr>)
   \<and> ExportMeshOperator_execute sample_bpy (soup_scene 21846 65538) world0
     = (Some StructError,
        world0\<lparr>created := True, written := [Pack_bool False, Pack_H 21846]\<rparr>)
   \<and> ExportSkeletonOperator_execute sample_bpy many_bones_scene world0
     = (Some StructError,
        world0\<lparr>armature_pose_position := POSE, created := True, written := []\<rparr>)"
proof -
  from soup_data [of 3 65536] obtain vs1 faces1
    where d1: "getDataFromMeshObjects sample_bpy [soup_object 65536 3] None sim_identity
                = Inr (vs1, faces1)"
      and n1: "length faces1 = 65536"
    by auto
  from soup_data [of 65538 21846] obtain vs2 faces2
    where d2: "getDataFromMeshObjects sample_bpy [soup_object 21846 65538] None sim_identity
                = Inr (vs2, faces2)"
      and n2: "length faces2 = 21846" and v2: "65538 \<le> length vs2"
    by auto
  have h1: "getSelectedMeshObjects (selected_objects (soup_scene 65536 3)) \<noteq> []
      \<and> getAxisMappingMatrix sample_bpy (soup_scene 65536 3) = Inr sim_identity
      \<and> getDataFromMeshObjects sample_bpy
           (getSelectedMeshObjects (selected_objects (soup_scene 65536 3)))
           (getSelectedArmature (selected_objects (soup_scene 65536 3))) sim_identity
         = Inr (vs1, faces1)
      \<and> meshPath_writable (soup_scene 65536 3) \<and> 65535 < length faces1"
    using d1 n1 by (simp add: soup_scene_facts)
  have h2: "getSelectedMeshObjects (selected_objects (soup_scene 21846 65538)) \<noteq> []
      \<and> getAxisMappingMatrix sample_bpy (soup_scene 21846 65538) = Inr sim_identity
      \<and> getDataFromMeshObjects sample_bpy
           (getSelectedMeshObjects (selected_objects (soup_scene 21846 65538)))
           (getSelectedArmature (selected_objects (soup_scene 21846 65538))) sim_identity
         = Inr (vs2, faces2)
      \<and> meshPath_writable (soup_scene 21846 65538)
      \<and> length faces2 \<le> 65535 \<and> 65535 < length vs2"
    using d2 n2 v2 by (simp add: soup_scene_facts)
  have h3: "getSelectedArmature (selected_objects many_bones_scene) = Some many_bones
      \<and> has_animation_data many_bones \<and> skeletonPath_writable many_bones_scene
      \<and> 255 < length (bones many_bones)"
    by (simp add: many_bones_facts)
  from capacity_errors_after_open
    [of "soup_scene 65536 3" sample_bpy sim_identity vs1 faces1 world0 many_bones] h1
  have r1: "ExportMeshOperator_execute sample_bpy (soup_scene 65536 3) world0
     = (Some StructError, world0\<lparr>created := True, written := [Pack_bool False]\<rparr>)"
    by (simp add: soup_scene_facts)
  from capacity_errors_after_open
    [of "soup_scene 21846 65538" sample_bpy sim_identity vs2 faces2 world0 many_bones] h2 n2
  have r2: "ExportMeshOperator_execute sample_bpy (soup_scene 21846 65538) world0
     = (Some StructError,
        world0\<lparr>created := True, written := [Pack_bool False, Pack_H 21846]\<rparr>)"
    by (simp add: soup_scene_facts)
  from capacity_errors_after_open
    [of many_bones_scene sample_bpy sim_identity vs1 faces1 world0 many_bones] h3
  have r3: "ExportSkeletonOperator_execute sample_bpy many_bones_scene world0
     = (Some StructError,
        world0\<lparr>armature_pose_position := POSE, created := True, written := []\<rparr>)"
    by blast
  from r1 r2 r3 show ?thesis by blast
qed

section \<open>First-seen order in getDataFromMeshObjects\<close>




end
